theory Spec2Isabelle
  imports Complex_Main
begin

text \<open>
  A model of the class \<^verbatim>\<open>TouchDistanceTracker\<close> (touchDistanceTracker.js): the tracker
  records pointer positions, adds up the distance travelled in millimetres, persists the
  total and a log of the touches in \<^verbatim>\<open>localStorage\<close> and notifies observers. Each method
  is a function from the object and the storage to the object and the storage it leaves,
  the exception it throws and the effects it has.
\<close>

section \<open>JavaScript values used by the tracker\<close>

text \<open>
  A JavaScript number is modelled as an exact real, the two infinities, or NaN.
  Arithmetic on reals is exact: IEEE-754 rounding, overflow and the sign of zero are
  outside the model. The special values follow ECMAScript.
\<close>

datatype number = Num real | PosInf | NegInf | NaN

fun num_add :: "number \<Rightarrow> number \<Rightarrow> number" where
  "num_add (Num a) (Num b) = Num (a + b)"
| "num_add NaN _ = NaN"
| "num_add _ NaN = NaN"
| "num_add PosInf NegInf = NaN"
| "num_add NegInf PosInf = NaN"
| "num_add PosInf _ = PosInf"
| "num_add _ PosInf = PosInf"
| "num_add NegInf _ = NegInf"
| "num_add _ NegInf = NegInf"

fun num_neg :: "number \<Rightarrow> number" where
  "num_neg (Num a) = Num (- a)"
| "num_neg PosInf = NegInf"
| "num_neg NegInf = PosInf"
| "num_neg NaN = NaN"

definition num_sub :: "number \<Rightarrow> number \<Rightarrow> number" where
  "num_sub a b = num_add a (num_neg b)"

fun num_mul :: "number \<Rightarrow> number \<Rightarrow> number" where
  "num_mul (Num a) (Num b) = Num (a * b)"
| "num_mul NaN _ = NaN"
| "num_mul _ NaN = NaN"
| "num_mul PosInf (Num b) = (if b = 0 then NaN else if 0 < b then PosInf else NegInf)"
| "num_mul NegInf (Num b) = (if b = 0 then NaN else if 0 < b then NegInf else PosInf)"
| "num_mul (Num a) PosInf = (if a = 0 then NaN else if 0 < a then PosInf else NegInf)"
| "num_mul (Num a) NegInf = (if a = 0 then NaN else if 0 < a then NegInf else PosInf)"
| "num_mul PosInf PosInf = PosInf"
| "num_mul PosInf NegInf = NegInf"
| "num_mul NegInf PosInf = NegInf"
| "num_mul NegInf NegInf = PosInf"

fun num_div :: "number \<Rightarrow> number \<Rightarrow> number" where
  "num_div (Num a) (Num b) =
     (if b = 0 then (if a = 0 then NaN else if 0 < a then PosInf else NegInf)
      else Num (a / b))"
| "num_div NaN _ = NaN"
| "num_div _ NaN = NaN"
| "num_div (Num a) PosInf = Num 0"
| "num_div (Num a) NegInf = Num 0"
| "num_div PosInf (Num b) = (if 0 \<le> b then PosInf else NegInf)"
| "num_div NegInf (Num b) = (if 0 \<le> b then NegInf else PosInf)"
| "num_div PosInf PosInf = NaN"
| "num_div PosInf NegInf = NaN"
| "num_div NegInf PosInf = NaN"
| "num_div NegInf NegInf = NaN"

text \<open>\<^verbatim>\<open>Math.sqrt\<close> and \<^verbatim>\<open>Math.pow\<close> with a literal natural exponent.\<close>

fun Math_sqrt :: "number \<Rightarrow> number" where
  "Math_sqrt (Num a) = (if a < 0 then NaN else Num (sqrt a))"
| "Math_sqrt PosInf = PosInf"
| "Math_sqrt NegInf = NaN"
| "Math_sqrt NaN = NaN"

fun Math_pow :: "number \<Rightarrow> nat \<Rightarrow> number" where
  "Math_pow (Num a) n = Num (a ^ n)"
| "Math_pow PosInf n = (if n = 0 then Num 1 else PosInf)"
| "Math_pow NegInf n = (if n = 0 then Num 1 else if even n then PosInf else NegInf)"
| "Math_pow NaN n = (if n = 0 then Num 1 else NaN)"

text \<open>Truthiness of a number: \<^verbatim>\<open>0\<close> and \<^verbatim>\<open>NaN\<close> are falsy.\<close>

fun truthy_num :: "number \<Rightarrow> bool" where
  "truthy_num (Num a) = (a \<noteq> 0)"
| "truthy_num PosInf = True"
| "truthy_num NegInf = True"
| "truthy_num NaN = False"

text \<open>
  Truthiness of a \<^verbatim>\<open>string | null | undefined\<close>: the result is the string when it is
  truthy (present and not empty), and \<open>None\<close> otherwise.
\<close>

definition truthy :: "string option \<Rightarrow> string option" where
  "truthy v = (case v of None \<Rightarrow> None | Some s \<Rightarrow> if s = [] then None else Some s)"

text \<open>The values \<^verbatim>\<open>JSON.parse\<close> returns.\<close>

datatype json =
    JNull
  | JBool bool
  | JNumber number
  | JString string
  | JArray "json list"
  | JObject "(string \<times> json) list"

datatype js_error = SyntaxError | TypeError | CallbackError

text \<open>
  The built-ins of the JavaScript host that the class calls. They are parameters of the
  model: \<open>JSON_parse\<close> returns \<open>None\<close> where \<^verbatim>\<open>JSON.parse\<close> throws a SyntaxError.
\<close>

record host =
  JSON_parse :: "string \<Rightarrow> json option"
  JSON_stringify :: "json \<Rightarrow> string"
  parseFloat :: "string \<Rightarrow> number"
  Number_toString :: "number \<Rightarrow> string"

section \<open>Data model (types.ts)\<close>

datatype TouchMode = Visualization | Production

record StorageConfig =
  storageKey :: "string option"
  touchLogKey :: "string option"

text \<open>A point \<^verbatim>\<open>{x, y}\<close>; the fields are written \<open>px\<close> and \<open>py\<close>.\<close>

record point =
  px :: number
  py :: number

record line =
  x1 :: number
  y1 :: number
  x2 :: number
  y2 :: number
  distance :: number

text \<open>The two fields of a pointer event that the tracker reads.\<close>

record event =
  clientX :: number
  clientY :: number

text \<open>
  An observer object: its identity (\<open>ref\<close>, what \<^verbatim>\<open>!==\<close> compares) and its three optional
  callbacks. A callback is modelled by whether it returns or throws on its argument; it
  does not call back into the tracker and does not touch \<^verbatim>\<open>localStorage\<close>.
\<close>

datatype completion = Returns | Throws

record observer =
  ref :: nat
  onPointsUpdated :: "(point list \<Rightarrow> completion) option"
  onLinesUpdated :: "(line list \<Rightarrow> completion) option"
  onTotalDistanceUpdated :: "(number \<Rightarrow> completion) option"

record config =
  cfg_mode :: "TouchMode option"
  cfg_dpi :: "number option"
  cfg_storageConfig :: "StorageConfig option"

text \<open>The fields of class \<^verbatim>\<open>TouchDistanceTracker\<close>.\<close>

record tracker =
  mode :: TouchMode
  lastTouchPosition :: "point option"
  dpi :: number
  totalDistance :: number
  points :: "point list"
  lines :: "line list"
  observers :: "observer list"
  storageConfig :: StorageConfig

text \<open>
  \<^verbatim>\<open>localStorage\<close> is a map from keys to strings. What a method does to the outside is
  recorded as a list of effects: writes and removals of storage entries and the calls of
  observer callbacks (with the observer's \<open>ref\<close> and the argument passed).
\<close>

type_synonym storage = "string \<Rightarrow> string option"

datatype effect =
    SetItem string string
  | RemoveItem string
  | CallPointsUpdated nat "point list"
  | CallLinesUpdated nat "line list"
  | CallTotalDistanceUpdated nat number

text \<open>
  The result of a method call: the exception it threw (if any), the object and the
  storage as the call left them, and the effects of the call in order.
\<close>

record outcome =
  thrown :: "js_error option"
  self :: tracker
  store :: storage
  effects :: "effect list"

section \<open>The class TouchDistanceTracker\<close>

subsection \<open>generateDefaultStorageKey\<close>

text \<open>
  \<^verbatim>\<open>
  generateDefaultStorageKey() {
      let index = 1;
      while (localStorage.getItem(`totalDistance-${String(index).padStart(2, "0")}`)) {
          index++;
      }
      return `totalDistance-${String(index).padStart(2, "0")}`;
  }
  \<close>
\<close>

text \<open>\<^verbatim>\<open>String(index)\<close> for a natural number: its decimal digits.\<close>

function String_of_index :: "nat \<Rightarrow> string" where
  "String_of_index n =
     (if n < 10 then [''0123456789'' ! n]
      else String_of_index (n div 10) @ [''0123456789'' ! (n mod 10)])"
  by pat_completeness auto
termination
  by (relation "measure id") auto

declare String_of_index.simps [simp del]

text \<open>\<^verbatim>\<open>s.padStart(n, c)\<close> for a one-character filler.\<close>

definition padStart :: "string \<Rightarrow> nat \<Rightarrow> char \<Rightarrow> string" where
  "padStart s n c = replicate (n - length s) c @ s"

definition default_key :: "nat \<Rightarrow> string" where
  "default_key index = ''totalDistance-'' @ padStart (String_of_index index) 2 (CHR ''0'')"

text \<open>
  The \<^verbatim>\<open>while\<close> loop of \<^verbatim>\<open>generateDefaultStorageKey\<close>. The loop need not end, so the
  result is an option: \<open>None\<close> is the loop that runs forever. The counter is a natural
  number (the source's counter is a double, exact up to \<open>2^53\<close>).
\<close>

partial_function (option) probe :: "storage \<Rightarrow> nat \<Rightarrow> string option" where
  "probe st index =
     (case truthy (st (default_key index)) of
        Some _ \<Rightarrow> probe st (index + 1)
      | None \<Rightarrow> Some (default_key index))"

declare probe.simps [code]

definition generateDefaultStorageKey :: "storage \<Rightarrow> string option" where
  "generateDefaultStorageKey st = probe st 1"

subsection \<open>Observers\<close>

text \<open>
  \<^verbatim>\<open>
  addObserver(observer) {
      this.observers.push(observer);
  }
  removeObserver(observer) {
      this.observers = this.observers.filter((obs) => obs !== observer);
  }
  notifyObservers() {
      if (this.mode === "visualization") {
          this.observers.forEach((observer) => {
              if (observer.onPointsUpdated) {
                  observer.onPointsUpdated([...this.points]);
              }
              if (observer.onLinesUpdated) {
                  observer.onLinesUpdated([...this.lines]);
              }
              if (observer.onTotalDistanceUpdated) {
                  observer.onTotalDistanceUpdated(this.totalDistance);
              }
          });
      }
  }
  \<close>
\<close>

definition addObserver :: "observer \<Rightarrow> tracker \<Rightarrow> tracker" where
  "addObserver ob t = t\<lparr>observers := observers t @ [ob]\<rparr>"

definition removeObserver :: "observer \<Rightarrow> tracker \<Rightarrow> tracker" where
  "removeObserver ob t = t\<lparr>observers := filter (\<lambda>obs. ref obs \<noteq> ref ob) (observers t)\<rparr>"

text \<open>
  Calling an optional callback: nothing happens when it is absent; otherwise the call is
  recorded and may throw. \<open>and_then\<close> sequences two steps: the second runs only when the
  first did not throw.
\<close>

definition invoke :: "('a \<Rightarrow> completion) option \<Rightarrow> 'a \<Rightarrow> effect \<Rightarrow> js_error option \<times> effect list" where
  "invoke cb arg ev =
     (case cb of
        None \<Rightarrow> (None, [])
      | Some f \<Rightarrow> (case f arg of Returns \<Rightarrow> (None, [ev]) | Throws \<Rightarrow> (Some CallbackError, [ev])))"

definition and_then ::
  "js_error option \<times> effect list \<Rightarrow> js_error option \<times> effect list \<Rightarrow> js_error option \<times> effect list" where
  "and_then r1 r2 = (case fst r1 of Some e \<Rightarrow> r1 | None \<Rightarrow> (fst r2, snd r1 @ snd r2))"

text \<open>The body of the \<^verbatim>\<open>forEach\<close> callback in \<^verbatim>\<open>notifyObservers\<close>.\<close>

definition notifyObserver :: "tracker \<Rightarrow> observer \<Rightarrow> js_error option \<times> effect list" where
  "notifyObserver t ob =
     and_then (invoke (onPointsUpdated ob) (points t) (CallPointsUpdated (ref ob) (points t)))
    (and_then (invoke (onLinesUpdated ob) (lines t) (CallLinesUpdated (ref ob) (lines t)))
              (invoke (onTotalDistanceUpdated ob) (totalDistance t)
                 (CallTotalDistanceUpdated (ref ob) (totalDistance t))))"

fun forEach :: "(observer \<Rightarrow> js_error option \<times> effect list) \<Rightarrow> observer list \<Rightarrow> js_error option \<times> effect list" where
  "forEach f [] = (None, [])"
| "forEach f (ob # obs) = and_then (f ob) (forEach f obs)"

definition notifyObservers :: "tracker \<Rightarrow> js_error option \<times> effect list" where
  "notifyObservers t =
     (if mode t = Visualization then forEach (notifyObserver t) (observers t) else (None, []))"

subsection \<open>Persistence of the total\<close>

text \<open>
  \<^verbatim>\<open>
  saveTotalDistance() {
      if (this.storageConfig.storageKey) {
          localStorage.setItem(this.storageConfig.storageKey, this.totalDistance.toString());
      }
  }
  loadTotalDistance() {
      if (this.storageConfig.storageKey) {
          const savedDistance = localStorage.getItem(this.storageConfig.storageKey);
          if (savedDistance) {
              this.totalDistance = parseFloat(savedDistance);
          }
      }
  }
  removeStorage() {
      if (this.storageConfig.storageKey) {
          localStorage.removeItem(this.storageConfig.storageKey);
      }
      if (this.storageConfig.touchLogKey) {
          localStorage.removeItem(this.storageConfig.touchLogKey);
      }
  }
  \<close>
\<close>

definition saveTotalDistance :: "host \<Rightarrow> tracker \<Rightarrow> storage \<Rightarrow> storage \<times> effect list" where
  "saveTotalDistance h t st =
     (case truthy (storageKey (storageConfig t)) of
        Some k \<Rightarrow>
          (st(k \<mapsto> Number_toString h (totalDistance t)),
           [SetItem k (Number_toString h (totalDistance t))])
      | None \<Rightarrow> (st, []))"

definition loadTotalDistance :: "host \<Rightarrow> storage \<Rightarrow> tracker \<Rightarrow> tracker" where
  "loadTotalDistance h st t =
     (case truthy (storageKey (storageConfig t)) of
        Some k \<Rightarrow>
          (case truthy (st k) of
             Some savedDistance \<Rightarrow> t\<lparr>totalDistance := parseFloat h savedDistance\<rparr>
           | None \<Rightarrow> t)
      | None \<Rightarrow> t)"

definition removeStorage :: "tracker \<Rightarrow> storage \<Rightarrow> storage \<times> effect list" where
  "removeStorage t st =
     (let (st1, ef1) = (case truthy (storageKey (storageConfig t)) of
                          Some k \<Rightarrow> (st(k := None), [RemoveItem k])
                        | None \<Rightarrow> (st, []));
          (st2, ef2) = (case truthy (touchLogKey (storageConfig t)) of
                          Some k \<Rightarrow> (st1(k := None), [RemoveItem k])
                        | None \<Rightarrow> (st1, []))
      in (st2, ef1 @ ef2))"

subsection \<open>The constructor\<close>

text \<open>
  \<^verbatim>\<open>
  constructor(config = {}) {
      this.mode = config.mode || "production";
      this.dpi = config.dpi || 96;
      const defaultStorageKey = this.generateDefaultStorageKey();
      this.storageConfig = {
          storageKey: config.storageConfig?.storageKey || defaultStorageKey,
          touchLogKey: config.storageConfig?.touchLogKey || `${defaultStorageKey}-touch-log`,
      };
      this.loadTotalDistance();
  }
  \<close>
\<close>

text \<open>\<^verbatim>\<open>a || b\<close> for an optional string and for an optional number.\<close>

definition or_string :: "string option \<Rightarrow> string \<Rightarrow> string" where
  "or_string v d = (case truthy v of Some s \<Rightarrow> s | None \<Rightarrow> d)"

definition or_number :: "number option \<Rightarrow> number \<Rightarrow> number" where
  "or_number v d = (case v of Some n \<Rightarrow> if truthy_num n then n else d | None \<Rightarrow> d)"

text \<open>\<^verbatim>\<open>config.storageConfig?.storageKey\<close> and \<^verbatim>\<open>config.storageConfig?.touchLogKey\<close>.\<close>

definition config_storageKey :: "config \<Rightarrow> string option" where
  "config_storageKey cfg = (case cfg_storageConfig cfg of None \<Rightarrow> None | Some sc \<Rightarrow> storageKey sc)"

definition config_touchLogKey :: "config \<Rightarrow> string option" where
  "config_touchLogKey cfg = (case cfg_storageConfig cfg of None \<Rightarrow> None | Some sc \<Rightarrow> touchLogKey sc)"

text \<open>
  \<^verbatim>\<open>new TouchDistanceTracker(config)\<close> on a storage. The result is \<open>None\<close> when the
  probing loop does not end.
\<close>

definition constructor :: "host \<Rightarrow> config \<Rightarrow> storage \<Rightarrow> tracker option" where
  "constructor h cfg st =
     (case generateDefaultStorageKey st of
        None \<Rightarrow> None
      | Some defaultStorageKey \<Rightarrow>
          Some (loadTotalDistance h st
            \<lparr>mode = (case cfg_mode cfg of Some m \<Rightarrow> m | None \<Rightarrow> Production),
             lastTouchPosition = None,
             dpi = or_number (cfg_dpi cfg) (Num 96),
             totalDistance = Num 0,
             points = [],
             lines = [],
             observers = [],
             storageConfig =
               \<lparr>storageKey = Some (or_string (config_storageKey cfg) defaultStorageKey),
                touchLogKey = Some (or_string (config_touchLogKey cfg)
                                     (defaultStorageKey @ ''-touch-log''))\<rparr>\<rparr>))"

subsection \<open>Geometry\<close>

text \<open>
  \<^verbatim>\<open>
  calculateDistance(x1, y1, x2, y2) {
      return Math.sqrt(Math.pow(x2 - x1, 2) + Math.pow(y2 - y1, 2));
  }
  convertToMM(distanceInPixels) {
      const mmPerPixel = 25.4 / this.dpi;
      return distanceInPixels * mmPerPixel;
  }
  \<close>
\<close>

definition calculateDistance :: "number \<Rightarrow> number \<Rightarrow> number \<Rightarrow> number \<Rightarrow> number" where
  "calculateDistance xa ya xb yb =
     Math_sqrt (num_add (Math_pow (num_sub xb xa) 2) (Math_pow (num_sub yb ya) 2))"

definition convertToMM :: "tracker \<Rightarrow> number \<Rightarrow> number" where
  "convertToMM t distanceInPixels =
     (let mmPerPixel = num_div (Num 25.4) (dpi t) in num_mul distanceInPixels mmPerPixel)"

subsection \<open>The touch log\<close>

text \<open>
  \<^verbatim>\<open>
  saveTouchLog(touchData) {
      if (this.storageConfig.touchLogKey) {
          const existingLog = localStorage.getItem(this.storageConfig.touchLogKey);
          const log = existingLog ? JSON.parse(existingLog) : [];
          log.push(touchData);
          localStorage.setItem(this.storageConfig.touchLogKey, JSON.stringify(log));
      }
  }
  getTouchLog() {
      if (this.storageConfig.touchLogKey) {
          const log = localStorage.getItem(this.storageConfig.touchLogKey);
          return log ? JSON.parse(log) : [];
      }
      return [];
  }
  \<close>
\<close>

text \<open>The object \<^verbatim>\<open>{ x, y, time_millis }\<close>.\<close>

definition touchData :: "number \<Rightarrow> number \<Rightarrow> number \<Rightarrow> json" where
  "touchData x y time_millis =
     JObject [(''x'', JNumber x), (''y'', JNumber y), (''time_millis'', JNumber time_millis)]"

text \<open>
  \<^verbatim>\<open>saveTouchLog\<close>: \<^verbatim>\<open>JSON.parse\<close> throws a SyntaxError on a string that is not JSON, and
  \<^verbatim>\<open>log.push\<close> throws a TypeError when the parsed value is not an array. In both cases
  nothing has been written.
\<close>

definition saveTouchLog :: "host \<Rightarrow> json \<Rightarrow> tracker \<Rightarrow> storage \<Rightarrow> js_error option \<times> storage \<times> effect list" where
  "saveTouchLog h td t st =
     (case truthy (touchLogKey (storageConfig t)) of
        Some k \<Rightarrow>
          (case (case truthy (st k) of
                   Some existingLog \<Rightarrow> JSON_parse h existingLog
                 | None \<Rightarrow> Some (JArray [])) of
             None \<Rightarrow> (Some SyntaxError, st, [])
           | Some (JArray entries) \<Rightarrow>
               (None, st(k \<mapsto> JSON_stringify h (JArray (entries @ [td]))),
                [SetItem k (JSON_stringify h (JArray (entries @ [td])))])
           | Some _ \<Rightarrow> (Some TypeError, st, []))
      | None \<Rightarrow> (None, st, []))"

definition getTouchLog :: "host \<Rightarrow> tracker \<Rightarrow> storage \<Rightarrow> js_error + json" where
  "getTouchLog h t st =
     (case truthy (touchLogKey (storageConfig t)) of
        Some k \<Rightarrow>
          (case truthy (st k) of
             Some storedLog \<Rightarrow>
               (case JSON_parse h storedLog of None \<Rightarrow> Inl SyntaxError | Some v \<Rightarrow> Inr v)
           | None \<Rightarrow> Inr (JArray []))
      | None \<Rightarrow> Inr (JArray []))"

subsection \<open>handleTouch and reset\<close>

text \<open>
  \<^verbatim>\<open>
  handleTouch(event) {
      const x = event.clientX;
      const y = event.clientY;
      const time_millis = Date.now();
      const newPoint = { x, y };
      this.saveTouchLog({ x, y, time_millis });
      if (this.lastTouchPosition) {
          const distanceInPixels = this.calculateDistance(this.lastTouchPosition.x, this.lastTouchPosition.y, x, y);
          const distanceInMM = this.convertToMM(distanceInPixels);
          this.totalDistance += distanceInMM;
          const newLine = {
              x1: this.lastTouchPosition.x,
              y1: this.lastTouchPosition.y,
              x2: x,
              y2: y,
              distance: distanceInMM,
          };
          this.lines.push(newLine);
          this.saveTotalDistance();
      }
      this.points.push(newPoint);
      this.lastTouchPosition = newPoint;
      this.notifyObservers();
  }
  reset() {
      this.lastTouchPosition = null;
      this.totalDistance = 0;
      this.points = [];
      this.lines = [];
      this.saveTotalDistance();
      if (this.storageConfig.touchLogKey) {
          localStorage.removeItem(this.storageConfig.touchLogKey);
      }
      this.notifyObservers();
  }
  \<close>
\<close>

text \<open>
  \<^verbatim>\<open>handleTouch(event)\<close>; \<open>time_millis\<close> is what \<^verbatim>\<open>Date.now()\<close> returns during the call.
\<close>

definition handleTouch :: "host \<Rightarrow> event \<Rightarrow> number \<Rightarrow> tracker \<Rightarrow> storage \<Rightarrow> outcome" where
  "handleTouch h ev time_millis t st =
     (let x = clientX ev;
          y = clientY ev;
          newPoint = \<lparr>px = x, py = y\<rparr>
      in case saveTouchLog h (touchData x y time_millis) t st of
           (Some e, st1, ef1) \<Rightarrow> \<lparr>thrown = Some e, self = t, store = st1, effects = ef1\<rparr>
         | (None, st1, ef1) \<Rightarrow>
             (let (t2, st2, ef2) =
                    (case lastTouchPosition t of
                       Some lp \<Rightarrow>
                         (let distanceInPixels = calculateDistance (px lp) (py lp) x y;
                              distanceInMM = convertToMM t distanceInPixels;
                              newLine = \<lparr>x1 = px lp, y1 = py lp, x2 = x, y2 = y,
                                         distance = distanceInMM\<rparr>;
                              t1 = t\<lparr>totalDistance := num_add (totalDistance t) distanceInMM,
                                     lines := lines t @ [newLine]\<rparr>;
                              (st', ef') = saveTotalDistance h t1 st1
                          in (t1, st', ef'))
                     | None \<Rightarrow> (t, st1, []));
                  t3 = t2\<lparr>points := points t2 @ [newPoint], lastTouchPosition := Some newPoint\<rparr>;
                  (e, ef3) = notifyObservers t3
              in \<lparr>thrown = e, self = t3, store = st2, effects = ef1 @ ef2 @ ef3\<rparr>))"

definition reset :: "host \<Rightarrow> tracker \<Rightarrow> storage \<Rightarrow> outcome" where
  "reset h t st =
     (let t1 = t\<lparr>lastTouchPosition := None, totalDistance := Num 0, points := [], lines := []\<rparr>;
          (st1, ef1) = saveTotalDistance h t1 st;
          (st2, ef2) = (case truthy (touchLogKey (storageConfig t1)) of
                          Some k \<Rightarrow> (st1(k := None), [RemoveItem k])
                        | None \<Rightarrow> (st1, []));
          (e, ef3) = notifyObservers t1
      in \<lparr>thrown = e, self = t1, store = st2, effects = ef1 @ ef2 @ ef3\<rparr>)"

definition getTotalDistance :: "tracker \<Rightarrow> number" where
  "getTotalDistance t = totalDistance t"

definition getPoints :: "tracker \<Rightarrow> point list" where
  "getPoints t = points t"

definition getLines :: "tracker \<Rightarrow> line list" where
  "getLines t = lines t"

section \<open>Sequences of calls\<close>

text \<open>
  The public methods that change the tracker or the storage, and a caller that makes a
  sequence of such calls. An exception ends the call that threw it; the caller goes on
  with the object and the storage as that call left them.
\<close>

datatype call =
    HandleTouch event number
  | Reset
  | AddObserver observer
  | RemoveObserver observer
  | RemoveStorage

fun perform :: "host \<Rightarrow> call \<Rightarrow> tracker \<Rightarrow> storage \<Rightarrow> outcome" where
  "perform h (HandleTouch ev time_millis) t st = handleTouch h ev time_millis t st"
| "perform h Reset t st = reset h t st"
| "perform h (AddObserver ob) t st =
     \<lparr>thrown = None, self = addObserver ob t, store = st, effects = []\<rparr>"
| "perform h (RemoveObserver ob) t st =
     \<lparr>thrown = None, self = removeObserver ob t, store = st, effects = []\<rparr>"
| "perform h RemoveStorage t st =
     \<lparr>thrown = None, self = t, store = fst (removeStorage t st), effects = snd (removeStorage t st)\<rparr>"

fun run_calls :: "host \<Rightarrow> call list \<Rightarrow> tracker \<Rightarrow> storage \<Rightarrow> tracker \<times> storage" where
  "run_calls h [] t st = (t, st)"
| "run_calls h (c # cs) t st = run_calls h cs (self (perform h c t st)) (store (perform h c t st))"

section \<open>Notions used to state the properties\<close>

text \<open>The sum of the recorded distances, added up in the order of recording.\<close>

definition sum_distances :: "line list \<Rightarrow> number" where
  "sum_distances ls = foldl num_add (Num 0) (map distance ls)"

text \<open>
  Nothing is persisted for a tracker under its total key (respectively its log key): the
  entry is absent or the empty string.
\<close>

definition no_saved_total :: "tracker \<Rightarrow> storage \<Rightarrow> bool" where
  "no_saved_total t st =
     (case truthy (storageKey (storageConfig t)) of Some k \<Rightarrow> truthy (st k) = None | None \<Rightarrow> True)"

definition no_saved_log :: "tracker \<Rightarrow> storage \<Rightarrow> bool" where
  "no_saved_log t st =
     (case truthy (touchLogKey (storageConfig t)) of Some k \<Rightarrow> truthy (st k) = None | None \<Rightarrow> True)"

text \<open>
  The invariant of the tracker's own state: there is a last position exactly when a point
  has been recorded, there is one line less than there are points, and the total is the
  sum of the recorded distances.
\<close>

definition tracker_inv :: "tracker \<Rightarrow> bool" where
  "tracker_inv t \<longleftrightarrow>
     (lastTouchPosition t = None \<longleftrightarrow> points t = []) \<and>
     length (lines t) = length (points t) - 1 \<and>
     totalDistance t = sum_distances (lines t)"

text \<open>The observer calls among the effects of a method call.\<close>

fun is_callback :: "effect \<Rightarrow> bool" where
  "is_callback (SetItem _ _) = False"
| "is_callback (RemoveItem _) = False"
| "is_callback (CallPointsUpdated _ _) = True"
| "is_callback (CallLinesUpdated _ _) = True"
| "is_callback (CallTotalDistanceUpdated _ _) = True"

definition callbacks_of :: "effect list \<Rightarrow> effect list" where
  "callbacks_of efs = filter is_callback efs"

text \<open>
  What the specification expects of one notification round for one registered observer:
  each callback the observer has, once, with the current points, lines and total.
\<close>

definition expected_calls :: "tracker \<Rightarrow> observer \<Rightarrow> effect list" where
  "expected_calls t ob =
     (case onPointsUpdated ob of Some _ \<Rightarrow> [CallPointsUpdated (ref ob) (points t)] | None \<Rightarrow> [])
   @ (case onLinesUpdated ob of Some _ \<Rightarrow> [CallLinesUpdated (ref ob) (lines t)] | None \<Rightarrow> [])
   @ (case onTotalDistanceUpdated ob of
        Some _ \<Rightarrow> [CallTotalDistanceUpdated (ref ob) (totalDistance t)] | None \<Rightarrow> [])"

text \<open>
  Whether the call of a callback recorded by an effect throws, for the observer it is made
  on; the expected calls of a notification round paired with their observers, in
  registration order; such a sequence cut after the first call that throws; and whether
  some call of it throws.
\<close>

fun call_throws :: "observer \<Rightarrow> effect \<Rightarrow> bool" where
  "call_throws ob (CallPointsUpdated _ arg) =
     (case onPointsUpdated ob of Some f \<Rightarrow> f arg = Throws | None \<Rightarrow> False)"
| "call_throws ob (CallLinesUpdated _ arg) =
     (case onLinesUpdated ob of Some f \<Rightarrow> f arg = Throws | None \<Rightarrow> False)"
| "call_throws ob (CallTotalDistanceUpdated _ arg) =
     (case onTotalDistanceUpdated ob of Some f \<Rightarrow> f arg = Throws | None \<Rightarrow> False)"
| "call_throws ob (SetItem _ _) = False"
| "call_throws ob (RemoveItem _) = False"



definition some_call_throws :: "(observer \<times> effect) list \<Rightarrow> bool" where
  "some_call_throws ps = list_ex (\<lambda>(ob, e). call_throws ob e) ps"

section \<open>A concrete host and concrete inputs\<close>

text \<open>
  A host used to run the model on concrete inputs. Its \<open>JSON_parse\<close>,
  \<open>JSON_stringify\<close> and \<open>Number_toString\<close> are finite tables: on the arguments listed
  they answer as ECMAScript does (\<open>distance_ab\<close> is printed as the nearest double is); on
  every other argument \<open>sample_JSON_parse\<close> rejects the string, \<open>sample_Number_toString\<close>
  answers NaN and \<open>sample_JSON_stringify\<close> answers the empty array.
\<close>

definition event_a :: event where
  "event_a = \<lparr>clientX = Num 0, clientY = Num 0\<rparr>"

definition event_b :: event where
  "event_b = \<lparr>clientX = Num 100, clientY = Num 100\<rparr>"

definition log_a :: json where
  "log_a = JArray [touchData (Num 0) (Num 0) (Num 1000)]"

definition log_ab :: json where
  "log_ab = JArray [touchData (Num 0) (Num 0) (Num 1000), touchData (Num 100) (Num 100) (Num 2000)]"

definition text_a :: string where
  \<open>text_a = ''[{"x":0,"y":0,"time_millis":1000}]''\<close>

definition text_ab :: string where
  \<open>text_ab = ''[{"x":0,"y":0,"time_millis":1000},{"x":100,"y":100,"time_millis":2000}]''\<close>

text \<open>The distance in millimetres between \<open>(0, 0)\<close> and \<open>(100, 100)\<close> at 96 dpi.\<close>

definition distance_ab :: real where
  "distance_ab = sqrt (100\<^sup>2 + 100\<^sup>2) * 25.4 / 96"

definition sample_JSON_parse :: "string \<Rightarrow> json option" where
  "sample_JSON_parse s =
     (if s = ''[]'' then Some (JArray [])
      else if s = text_a then Some log_a
      else if s = text_ab then Some log_ab
      else None)"

definition sample_JSON_stringify :: "json \<Rightarrow> string" where
  "sample_JSON_stringify v =
     (if v = log_a then text_a
      else if v = log_ab then text_ab
      else ''[]'')"

text \<open>
  \<^verbatim>\<open>parseFloat\<close> of the sample host: leading white space is skipped, then the longest
  prefix that is a decimal literal (an optional sign, then \<^verbatim>\<open>Infinity\<close> or digits with an
  optional fraction and an optional exponent) gives the number, exactly; a string with no
  such prefix gives NaN.
\<close>

definition is_space :: "char \<Rightarrow> bool" where
  "is_space c \<longleftrightarrow> c \<in> set [CHR '' '', CHR 0x09, CHR 0x0A, CHR 0x0B, CHR 0x0C, CHR 0x0D]"

definition is_digit :: "char \<Rightarrow> bool" where
  "is_digit c \<longleftrightarrow> c \<in> set ''0123456789''"

definition digits_value :: "string \<Rightarrow> nat" where
  "digits_value ds = foldl (\<lambda>n c. 10 * n + (of_char c - 48)) 0 ds"

definition strip_sign :: "string \<Rightarrow> bool \<times> string" where
  "strip_sign s =
     (case s of
        [] \<Rightarrow> (False, [])
      | c # r \<Rightarrow> if c = CHR ''-'' then (True, r) else if c = CHR ''+'' then (False, r) else (False, s))"

definition exponent_of :: "string \<Rightarrow> int" where
  "exponent_of s =
     (case s of
        [] \<Rightarrow> 0
      | c # r \<Rightarrow>
          if c = CHR ''e'' \<or> c = CHR ''E'' then
            (let (neg, r1) = strip_sign r; ds = takeWhile is_digit r1
             in if ds = [] then 0
                else if neg then - int (digits_value ds) else int (digits_value ds))
          else 0)"

definition scale10 :: "real \<Rightarrow> int \<Rightarrow> real" where
  "scale10 v e = (if 0 \<le> e then v * 10 ^ nat e else v / 10 ^ nat (- e))"

definition sample_parseFloat :: "string \<Rightarrow> number" where
  "sample_parseFloat s =
     (let (neg, s1) = strip_sign (dropWhile is_space s) in
      if take 8 s1 = ''Infinity'' then (if neg then NegInf else PosInf)
      else
        let ip = takeWhile is_digit s1;
            r1 = dropWhile is_digit s1;
            (fp, r2) = (case r1 of
                          [] \<Rightarrow> ([], [])
                        | c # r \<Rightarrow> if c = CHR ''.''
                                   then (takeWhile is_digit r, dropWhile is_digit r)
                                   else ([], r1))
        in if ip = [] \<and> fp = [] then NaN
           else
             let m = real (digits_value ip) + real (digits_value fp) / 10 ^ length fp;
                 v = scale10 m (exponent_of r2)
             in Num (if neg then - v else v))"

definition sample_Number_toString :: "number \<Rightarrow> string" where
  "sample_Number_toString n =
     (if n = Num 0 then ''0''
      else if n = Num 25.4 then ''25.4''
      else if n = Num distance_ab then ''37.41773383778814''
      else ''NaN'')"

definition sample_host :: host where
  "sample_host =
     \<lparr>JSON_parse = sample_JSON_parse, JSON_stringify = sample_JSON_stringify,
      parseFloat = sample_parseFloat, Number_toString = sample_Number_toString\<rparr>"

text \<open>The configuration of the repository's tests: visualization mode, 96 dpi, no keys.\<close>

definition test_config :: config where
  "test_config = \<lparr>cfg_mode = Some Visualization, cfg_dpi = Some (Num 96), cfg_storageConfig = None\<rparr>"

text \<open>A configuration that names its total key.\<close>

definition keyed_config :: "string \<Rightarrow> config" where
  "keyed_config k =
     \<lparr>cfg_mode = None, cfg_dpi = None,
      cfg_storageConfig = Some \<lparr>storageKey = Some k, touchLogKey = None\<rparr>\<rparr>"

text \<open>
  The tracker that the constructor returns for \<open>test_config\<close> on an empty storage, and
  the tracker and the storage after a touch at \<open>(0, 0)\<close> and after a second touch at
  \<open>(100, 100)\<close>.
\<close>

definition fresh_tracker :: tracker where
  "fresh_tracker =
     \<lparr>mode = Visualization, lastTouchPosition = None, dpi = Num 96, totalDistance = Num 0,
      points = [], lines = [], observers = [],
      storageConfig = \<lparr>storageKey = Some ''totalDistance-01'',
                       touchLogKey = Some ''totalDistance-01-touch-log''\<rparr>\<rparr>"

definition tracker_a :: tracker where
  "tracker_a = fresh_tracker\<lparr>points := [\<lparr>px = Num 0, py = Num 0\<rparr>],
                             lastTouchPosition := Some \<lparr>px = Num 0, py = Num 0\<rparr>\<rparr>"

definition storage_a :: storage where
  "storage_a = [''totalDistance-01-touch-log'' \<mapsto> text_a]"

definition tracker_ab :: tracker where
  "tracker_ab =
     fresh_tracker\<lparr>totalDistance := Num distance_ab,
       lines := [\<lparr>x1 = Num 0, y1 = Num 0, x2 = Num 100, y2 = Num 100, distance = Num distance_ab\<rparr>],
       points := [\<lparr>px = Num 0, py = Num 0\<rparr>, \<lparr>px = Num 100, py = Num 100\<rparr>],
       lastTouchPosition := Some \<lparr>px = Num 100, py = Num 100\<rparr>\<rparr>"

definition storage_ab :: storage where
  "storage_ab = [''totalDistance-01-touch-log'' \<mapsto> text_ab,
                 ''totalDistance-01'' \<mapsto> ''37.41773383778814'']"

text \<open>
  Three observers: one with all three callbacks, one with the total callback only, and one
  whose points callback throws.
\<close>

definition observer_full :: observer where
  "observer_full =
     \<lparr>ref = 1, onPointsUpdated = Some (\<lambda>_. Returns), onLinesUpdated = Some (\<lambda>_. Returns),
      onTotalDistanceUpdated = Some (\<lambda>_. Returns)\<rparr>"



text \<open>
  A storage with a total that is not a number and a touch log that is not JSON, and a
  storage whose first default key holds the empty string.
\<close>

definition bad_storage :: storage where
  "bad_storage = [''saved'' \<mapsto> ''abc'', ''totalDistance-01-touch-log'' \<mapsto> ''{oops'']"

definition empty_entry_storage :: storage where
  "empty_entry_storage = [''totalDistance-01'' \<mapsto> []]"

text \<open>Further concrete storages and the trackers constructed on them.\<close>

definition bad_tracker :: tracker where
  "bad_tracker =
     \<lparr>mode = Production, lastTouchPosition = None, dpi = Num 96, totalDistance = NaN,
      points = [], lines = [], observers = [],
      storageConfig = \<lparr>storageKey = Some ''saved'',
                       touchLogKey = Some ''totalDistance-01-touch-log''\<rparr>\<rparr>"

definition one_total_storage :: storage where
  "one_total_storage = [''totalDistance-01'' \<mapsto> ''25.4'']"

definition two_entry_storage :: storage where
  "two_entry_storage = [''totalDistance-01'' \<mapsto> ''25.4'', ''totalDistance-02'' \<mapsto> []]"

definition second_tracker :: tracker where
  "second_tracker =
     fresh_tracker\<lparr>storageConfig := \<lparr>storageKey = Some ''totalDistance-02'',
                                         touchLogKey = Some ''totalDistance-02-touch-log''\<rparr>\<rparr>"

section \<open>Basic facts\<close>

subsection \<open>Truthiness and the probing loop\<close>

lemma truthy_None [simp]: "truthy None = None"
  by (simp add: truthy_def)

lemma truthy_Some [simp]: "truthy (Some s) = (if s = [] then None else Some s)"
  by (simp add: truthy_def)

lemma truthy_eq_Some: "truthy v = Some s \<longleftrightarrow> v = Some s \<and> s \<noteq> []"
  by (cases v) auto

lemma truthy_eq_None: "truthy v = None \<longleftrightarrow> v = None \<or> v = Some []"
  by (cases v) auto

lemma probe_sound:
  assumes "probe st k = Some d"
  shows "\<exists>i. k \<le> i \<and> d = default_key i \<and> truthy (st (default_key i)) = None \<and>
       (\<forall>j. k \<le> j \<and> j < i \<longrightarrow> truthy (st (default_key j)) \<noteq> None)"
proof (rule probe.raw_induct[where P = "\<lambda>st k d. \<exists>i. k \<le> i \<and> d = default_key i \<and>
       truthy (st (default_key i)) = None \<and>
       (\<forall>j. k \<le> j \<and> j < i \<longrightarrow> truthy (st (default_key j)) \<noteq> None)", OF _ assms])
  fix probe' :: "storage \<Rightarrow> nat \<Rightarrow> string option" and st k d
  assume IH: "\<And>st k d. probe' st k = Some d \<Longrightarrow> \<exists>i. k \<le> i \<and> d = default_key i \<and>
       truthy (st (default_key i)) = None \<and>
       (\<forall>j. k \<le> j \<and> j < i \<longrightarrow> truthy (st (default_key j)) \<noteq> None)"
    and eq: "(case truthy (st (default_key k)) of
      None \<Rightarrow> Some (default_key k) | Some x \<Rightarrow> probe' st (k + 1)) = Some d"
  show "\<exists>i. k \<le> i \<and> d = default_key i \<and> truthy (st (default_key i)) = None \<and>
       (\<forall>j. k \<le> j \<and> j < i \<longrightarrow> truthy (st (default_key j)) \<noteq> None)"
  proof (cases "truthy (st (default_key k))")
    case None
    with eq have "d = default_key k" by simp
    moreover have "\<And>j. \<not> (k \<le> j \<and> j < k)" by linarith
    ultimately show ?thesis using None by blast
  next
    case (Some s)
    with eq have "probe' st (k + 1) = Some d" by simp
    from IH[OF this] obtain i where i: "k + 1 \<le> i" "d = default_key i"
      "truthy (st (default_key i)) = None"
      "\<forall>j. k + 1 \<le> j \<and> j < i \<longrightarrow> truthy (st (default_key j)) \<noteq> None" by blast
    have "truthy (st (default_key j)) \<noteq> None" if "k \<le> j \<and> j < i" for j
    proof (cases "j = k")
      case True
      with Some show ?thesis by simp
    next
      case False
      with that have "k + 1 \<le> j \<and> j < i" by linarith
      with i(4) show ?thesis by blast
    qed
    moreover have "k \<le> i" using i(1) by simp
    ultimately show ?thesis using i(2,3) by blast
  qed
qed

lemma probe_complete:
  "truthy (st (default_key i)) = None \<Longrightarrow> k \<le> i \<Longrightarrow>
   (\<forall>j. k \<le> j \<and> j < i \<longrightarrow> truthy (st (default_key j)) \<noteq> None) \<Longrightarrow>
   probe st k = Some (default_key i)"
proof (induction "i - k" arbitrary: k)
  case 0
  then have "k = i" by simp
  with 0 show ?case by (subst probe.simps) simp
next
  case (Suc n)
  then have lt: "k < i" by simp
  with Suc.prems have "truthy (st (default_key k)) \<noteq> None" by simp
  then obtain s where s: "truthy (st (default_key k)) = Some s" by auto
  have "probe st (k + 1) = Some (default_key i)"
  proof (rule Suc.hyps(1))
    show "n = i - (k + 1)" using Suc.hyps(2) by simp
    show "truthy (st (default_key i)) = None" by (rule Suc.prems(1))
    show "k + 1 \<le> i" using lt by simp
    show "\<forall>j. k + 1 \<le> j \<and> j < i \<longrightarrow> truthy (st (default_key j)) \<noteq> None"
      using Suc.prems(3) by simp
  qed
  with s show ?case by (subst probe.simps) simp
qed

lemma length_String_of_index: "10 ^ L \<le> n \<Longrightarrow> L < length (String_of_index n)"
proof (induction L arbitrary: n)
  case 0
  show ?case by (subst String_of_index.simps) simp
next
  case (Suc L)
  have "(10::nat) \<le> 10 ^ Suc L" by simp
  with Suc.prems have n10: "\<not> n < 10" by linarith
  from Suc.prems have "10 ^ L \<le> n div 10" by (simp add: less_eq_div_iff_mult_less_eq)
  from Suc.IH[OF this] n10 show ?case by (subst String_of_index.simps) simp
qed

lemma length_default_key: "10 ^ L \<le> n \<Longrightarrow> L < length (default_key n)"
  using length_String_of_index[of L n] by (simp add: default_key_def padStart_def)

lemma default_key_not_empty: "default_key i \<noteq> []"
  by (simp add: default_key_def)

lemma exists_unused_index:
  assumes "finite {k. truthy (st k) \<noteq> None}"
  shows "\<exists>i\<ge>1. truthy (st (default_key i)) = None"
proof -
  from finite_maxlen[OF assms] obtain L where L: "\<forall>s\<in>{k. truthy (st k) \<noteq> None}. length s < L" by blast
  have "L < length (default_key (10 ^ L))" by (rule length_default_key) simp
  with L have "default_key (10 ^ L) \<notin> {k. truthy (st k) \<noteq> None}" by (metis less_irrefl less_trans)
  then have "truthy (st (default_key (10 ^ L))) = None" by simp
  moreover have "(1::nat) \<le> 10 ^ L" by simp
  ultimately show ?thesis by blast
qed

lemma generate_terminates:
  assumes "finite {k. truthy (st k) \<noteq> None}"
  shows "\<exists>i\<ge>1. generateDefaultStorageKey st = Some (default_key i) \<and>
           truthy (st (default_key i)) = None \<and>
           (\<forall>j. 1 \<le> j \<and> j < i \<longrightarrow> truthy (st (default_key j)) \<noteq> None)"
proof -
  from exists_unused_index[OF assms] obtain i0 where i0: "1 \<le> i0 \<and> truthy (st (default_key i0)) = None" by blast
  define i where "i = (LEAST i. 1 \<le> i \<and> truthy (st (default_key i)) = None)"
  have P: "1 \<le> i \<and> truthy (st (default_key i)) = None"
    unfolding i_def using i0 by (rule LeastI)
  have least: "truthy (st (default_key j)) \<noteq> None" if "1 \<le> j" "j < i" for j
  proof
    assume "truthy (st (default_key j)) = None"
    with that(1) have "i \<le> j" unfolding i_def by (intro Least_le) simp
    with that(2) show False by simp
  qed
  have "probe st 1 = Some (default_key i)"
    by (rule probe_complete) (use P least in auto)
  with P least show ?thesis unfolding generateDefaultStorageKey_def by blast
qed

lemma generate_sound:
  assumes "generateDefaultStorageKey st = Some d"
  shows "\<exists>i\<ge>1. d = default_key i \<and> truthy (st (default_key i)) = None \<and>
           (\<forall>j. 1 \<le> j \<and> j < i \<longrightarrow> truthy (st (default_key j)) \<noteq> None)"
  using probe_sound[of st 1 d] assms unfolding generateDefaultStorageKey_def by blast

lemma finite_truthy: "finite (dom st) \<Longrightarrow> finite {k. truthy (st k) \<noteq> None}"
  by (rule finite_subset[of _ "dom st"]) (auto simp: truthy_eq_None)

subsection \<open>The constructor\<close>

lemma loadTotalDistance_fields [simp]:
  "points (loadTotalDistance h st t) = points t"
  "lines (loadTotalDistance h st t) = lines t"
  "lastTouchPosition (loadTotalDistance h st t) = lastTouchPosition t"
  "observers (loadTotalDistance h st t) = observers t"
  "storageConfig (loadTotalDistance h st t) = storageConfig t"
  "mode (loadTotalDistance h st t) = mode t"
  "dpi (loadTotalDistance h st t) = dpi t"
  by (simp_all add: loadTotalDistance_def split: option.splits)

lemma or_string_not_empty: "d \<noteq> [] \<Longrightarrow> or_string v d \<noteq> []"
  by (cases v) (auto simp: or_string_def)

lemma constructor_cases:
  assumes "constructor h cfg st = Some t"
  obtains d where "generateDefaultStorageKey st = Some d"
    and "t = loadTotalDistance h st
            \<lparr>mode = (case cfg_mode cfg of Some m \<Rightarrow> m | None \<Rightarrow> Production),
             lastTouchPosition = None,
             dpi = or_number (cfg_dpi cfg) (Num 96),
             totalDistance = Num 0,
             points = [],
             lines = [],
             observers = [],
             storageConfig =
               \<lparr>storageKey = Some (or_string (config_storageKey cfg) d),
                touchLogKey = Some (or_string (config_touchLogKey cfg) (d @ ''-touch-log''))\<rparr>\<rparr>"
  using assms unfolding constructor_def by (auto split: option.splits)

lemma constructor_initial:
  assumes "constructor h cfg st = Some t"
  shows "points t = []" "lines t = []" "lastTouchPosition t = None" "observers t = []"
  using assms by (auto elim!: constructor_cases)

lemma constructor_keys:
  assumes "constructor h cfg st = Some t"
  shows "\<exists>k l. storageKey (storageConfig t) = Some k \<and> k \<noteq> [] \<and>
               touchLogKey (storageConfig t) = Some l \<and> l \<noteq> []"
proof -
  from assms obtain d where d: "generateDefaultStorageKey st = Some d"
    and sk: "storageKey (storageConfig t) = Some (or_string (config_storageKey cfg) d)"
    and lk: "touchLogKey (storageConfig t) = Some (or_string (config_touchLogKey cfg) (d @ ''-touch-log''))"
    by (auto elim!: constructor_cases)
  from generate_sound[OF d] have "d \<noteq> []" by (auto simp: default_key_not_empty)
  then show ?thesis using sk lk by (simp add: or_string_not_empty)
qed

lemma constructor_total:
  assumes "constructor h cfg st = Some t" and "storageKey (storageConfig t) = Some k"
  shows "totalDistance t = (case truthy (st k) of Some s \<Rightarrow> parseFloat h s | None \<Rightarrow> Num 0)"
proof -
  from constructor_keys[OF assms(1)] assms(2) have k: "k \<noteq> []" by auto
  from assms show ?thesis
    by (elim constructor_cases) (use k in \<open>auto simp: loadTotalDistance_def split: option.splits\<close>)
qed

subsection \<open>The state after handleTouch and reset\<close>

lemma handleTouch_self:
  "self (handleTouch h ev tm t st) =
     (case fst (saveTouchLog h (touchData (clientX ev) (clientY ev) tm) t st) of
        Some e \<Rightarrow> t
      | None \<Rightarrow>
          (case lastTouchPosition t of
             None \<Rightarrow> t\<lparr>points := points t @ [\<lparr>px = clientX ev, py = clientY ev\<rparr>],
                       lastTouchPosition := Some \<lparr>px = clientX ev, py = clientY ev\<rparr>\<rparr>
           | Some lp \<Rightarrow>
               t\<lparr>totalDistance := num_add (totalDistance t)
                     (convertToMM t (calculateDistance (px lp) (py lp) (clientX ev) (clientY ev))),
                 lines := lines t @ [\<lparr>x1 = px lp, y1 = py lp, x2 = clientX ev, y2 = clientY ev,
                    distance = convertToMM t (calculateDistance (px lp) (py lp) (clientX ev) (clientY ev))\<rparr>],
                 points := points t @ [\<lparr>px = clientX ev, py = clientY ev\<rparr>],
                 lastTouchPosition := Some \<lparr>px = clientX ev, py = clientY ev\<rparr>\<rparr>))"
  by (simp add: handleTouch_def Let_def convertToMM_def split: prod.splits option.splits)

lemma reset_self:
  "self (reset h t st) =
     t\<lparr>lastTouchPosition := None, totalDistance := Num 0, points := [], lines := []\<rparr>"
  by (simp add: reset_def Let_def split: prod.splits)

lemma sum_distances_Nil [simp]: "sum_distances [] = Num 0"
  by (simp add: sum_distances_def)

lemma sum_distances_snoc [simp]:
  "sum_distances (ls @ [l]) = num_add (sum_distances ls) (distance l)"
  by (simp add: sum_distances_def)

lemma handleTouch_inv: "tracker_inv t \<Longrightarrow> tracker_inv (self (handleTouch h ev tm t st))"
  by (cases "points t") (auto simp: handleTouch_self tracker_inv_def split: option.splits)

lemma reset_inv: "tracker_inv (self (reset h t st))"
  by (simp add: reset_self tracker_inv_def)

lemma perform_inv: "tracker_inv t \<Longrightarrow> tracker_inv (self (perform h c t st))"
  by (cases c) (simp_all add: handleTouch_inv reset_inv, simp_all add: tracker_inv_def addObserver_def removeObserver_def)

lemma run_calls_inv:
  "tracker_inv t \<Longrightarrow> run_calls h cs t st = (t', st') \<Longrightarrow> tracker_inv t'"
proof (induction cs arbitrary: t st)
  case Nil
  then show ?case by simp
next
  case (Cons c cs)
  from Cons.prems(1) have "tracker_inv (self (perform h c t st))" by (rule perform_inv)
  moreover from Cons.prems(2)
  have "run_calls h cs (self (perform h c t st)) (store (perform h c t st)) = (t', st')" by simp
  ultimately show ?case by (rule Cons.IH)
qed

lemma default_key_no_saved_total:
  assumes "constructor h cfg st = Some t" and "truthy (config_storageKey cfg) = None"
  shows "no_saved_total t st"
proof -
  from assms(1) obtain d where d: "generateDefaultStorageKey st = Some d"
    and sk: "storageKey (storageConfig t) = Some (or_string (config_storageKey cfg) d)"
    by (auto elim!: constructor_cases)
  from sk assms(2) have k: "storageKey (storageConfig t) = Some d" by (simp add: or_string_def)
  from generate_sound[OF d] have "d \<noteq> []" "truthy (st d) = None"
    by (auto simp: default_key_not_empty)
  with k show ?thesis by (simp add: no_saved_total_def)
qed

lemma constructor_inv:
  assumes "constructor h cfg st = Some t" and "no_saved_total t st"
  shows "tracker_inv t"
proof -
  from constructor_keys[OF assms(1)] obtain k where k: "storageKey (storageConfig t) = Some k" "k \<noteq> []"
    by blast
  with assms(2) have "truthy (st k) = None" by (simp add: no_saved_total_def)
  with constructor_total[OF assms(1) k(1)] have "totalDistance t = Num 0" by simp
  with constructor_initial[OF assms(1)] show ?thesis by (simp add: tracker_inv_def)
qed

subsection \<open>The first default keys and the empty storage\<close>

lemma default_key_1: "default_key 1 = ''totalDistance-01''"
  by (simp add: default_key_def padStart_def String_of_index.simps)

lemma default_key_2: "default_key 2 = ''totalDistance-02''"
  by (simp add: default_key_def padStart_def String_of_index.simps)

lemma default_key_Suc_0: "default_key (Suc 0) = ''totalDistance-01''"
  using default_key_1 by simp

lemma generate_empty: "generateDefaultStorageKey Map.empty = Some ''totalDistance-01''"
  unfolding generateDefaultStorageKey_def by (subst probe.simps) (simp add: default_key_Suc_0)

lemma constructor_empty: "constructor sample_host test_config Map.empty = Some fresh_tracker"
  by (simp add: constructor_def generate_empty test_config_def fresh_tracker_def or_number_def
      or_string_def config_storageKey_def config_touchLogKey_def loadTotalDistance_def)

lemma touch_a:
  "handleTouch sample_host event_a (Num 1000) fresh_tracker Map.empty =
     \<lparr>thrown = None, self = tracker_a, store = storage_a,
      effects = [SetItem ''totalDistance-01-touch-log'' text_a]\<rparr>"
  by (simp add: handleTouch_def saveTouchLog_def fresh_tracker_def tracker_a_def storage_a_def
      event_a_def sample_host_def sample_JSON_stringify_def log_a_def notifyObservers_def Let_def)

subsection \<open>The distance between (0, 0) and (100, 100)\<close>

lemma sqrt_20000_tight: "141.421 < sqrt 20000" "sqrt 20000 < 141.422"
proof -
  show "141.421 < sqrt 20000" by (rule real_less_rsqrt) (simp add: power2_eq_square)
  show "sqrt 20000 < 141.422" by (rule real_less_lsqrt) (simp_all add: power2_eq_square)
qed

lemma distance_ab_approx:
  "\<bar>distance_ab - 37.42\<bar> < 0.005"
  "0.05 < \<bar>distance_ab - 37.48\<bar>"
proof -
  have e: "distance_ab = sqrt 20000 * 25.4 / 96" by (simp add: distance_ab_def)
  show "\<bar>distance_ab - 37.42\<bar> < 0.005"
    unfolding e using sqrt_20000_tight by (simp add: abs_less_iff)
  show "0.05 < \<bar>distance_ab - 37.48\<bar>"
    unfolding e using sqrt_20000_tight by (simp add: abs_if)
qed

lemma convertToMM_ab:
  "dpi t = Num 96 \<Longrightarrow>
   convertToMM t (calculateDistance (Num 0) (Num 0) (Num 100) (Num 100)) = Num distance_ab"
  by (simp add: convertToMM_def calculateDistance_def num_sub_def distance_ab_def)

subsection \<open>Exceptions and observer calls\<close>

lemma saveTouchLog_no_saved_log:
  "no_saved_log t st \<Longrightarrow> fst (saveTouchLog h td t st) = None"
  by (auto simp: saveTouchLog_def no_saved_log_def split: option.splits)



lemma callbacks_of_append [simp]: "callbacks_of (xs @ ys) = callbacks_of xs @ callbacks_of ys"
  by (simp add: callbacks_of_def)

lemma callbacks_of_Nil [simp]: "callbacks_of [] = []"
  by (simp add: callbacks_of_def)

lemma handleTouch_thrown:
  "thrown (handleTouch h ev tm t st) =
     (case fst (saveTouchLog h (touchData (clientX ev) (clientY ev) tm) t st) of
        Some e \<Rightarrow> Some e
      | None \<Rightarrow> fst (notifyObservers (self (handleTouch h ev tm t st))))"
  by (simp add: handleTouch_def Let_def split: prod.splits option.splits)


lemma invoke_None: "fst (invoke cb arg e) = None \<Longrightarrow>
   snd (invoke cb arg e) = (case cb of Some _ \<Rightarrow> [e] | None \<Rightarrow> [])"
  by (auto simp: invoke_def split: option.splits completion.splits)

lemma and_then_None:
  "fst (and_then r1 r2) = None \<longleftrightarrow> fst r1 = None \<and> fst r2 = None"
  by (auto simp: and_then_def split: option.splits)

lemma and_then_snd:
  "fst r1 = None \<Longrightarrow> snd (and_then r1 r2) = snd r1 @ snd r2"
  by (auto simp: and_then_def split: option.splits)

lemma notifyObserver_returns:
  assumes "fst (notifyObserver t ob) = None"
  shows "snd (notifyObserver t ob) = expected_calls t ob"
  using assms unfolding notifyObserver_def expected_calls_def
  by (simp add: and_then_None and_then_snd invoke_None)

lemma forEach_returns:
  "fst (forEach (notifyObserver t) obs) = None \<Longrightarrow>
   snd (forEach (notifyObserver t) obs) = concat (map (expected_calls t) obs)"
  by (induction obs) (simp_all add: and_then_None and_then_snd notifyObserver_returns)






lemma notifyObservers_production:
  "mode t = Production \<Longrightarrow> notifyObservers t = (None, [])"
  by (simp add: notifyObservers_def)

lemma notifyObservers_visualization:
  "mode t = Visualization \<Longrightarrow> fst (notifyObservers t) = None \<Longrightarrow>
   snd (notifyObservers t) = concat (map (expected_calls t) (observers t))"
  by (simp add: notifyObservers_def forEach_returns)

lemma some_call_throws_simps [simp]:
  "some_call_throws [] = False"
  "some_call_throws ((ob, e) # ps) = (call_throws ob e \<or> some_call_throws ps)"
  "some_call_throws (ps @ qs) = (some_call_throws ps \<or> some_call_throws qs)"
  by (simp_all add: some_call_throws_def)










lemma handleTouch_frame [simp]:
  "mode (self (handleTouch h ev tm t st)) = mode t"
  "observers (self (handleTouch h ev tm t st)) = observers t"
  "storageConfig (self (handleTouch h ev tm t st)) = storageConfig t"
  "dpi (self (handleTouch h ev tm t st)) = dpi t"
  by (simp_all add: handleTouch_self split: option.splits)

lemma notifyObservers_no_observers: "observers t = [] \<Longrightarrow> notifyObservers t = (None, [])"
  by (simp add: notifyObservers_def)

subsection \<open>Reachable states\<close>

lemma perform_storageConfig [simp]: "storageConfig (self (perform h c t st)) = storageConfig t"
  by (cases c) (simp_all add: reset_self addObserver_def removeObserver_def)

lemma run_calls_storageConfig:
  "run_calls h cs t st = (t', st') \<Longrightarrow> storageConfig t' = storageConfig t"
  by (induction cs arbitrary: t st) simp_all

lemma reachable_keys:
  assumes "constructor h cfg st0 = Some t0" and "run_calls h cs t0 st0 = (t, st)"
  shows "\<exists>k l. storageKey (storageConfig t) = Some k \<and> k \<noteq> [] \<and>
               touchLogKey (storageConfig t) = Some l \<and> l \<noteq> []"
  using constructor_keys[OF assms(1)] run_calls_storageConfig[OF assms(2)] by simp

lemma reset_outcome:
  assumes "storageKey (storageConfig t) = Some k" "k \<noteq> []"
    and "touchLogKey (storageConfig t) = Some l" "l \<noteq> []"
  shows "reset h t st =
     \<lparr>thrown = fst (notifyObservers (self (reset h t st))),
      self = t\<lparr>lastTouchPosition := None, totalDistance := Num 0, points := [], lines := []\<rparr>,
      store = (st(k \<mapsto> Number_toString h (Num 0)))(l := None),
      effects = [SetItem k (Number_toString h (Num 0)), RemoveItem l]
                @ snd (notifyObservers (self (reset h t st)))\<rparr>"
  using assms by (simp add: reset_def saveTotalDistance_def Let_def split: prod.splits)

lemma constructor_None: "constructor h cfg st = None \<longleftrightarrow> generateDefaultStorageKey st = None"
  by (simp add: constructor_def split: option.splits)


lemma or_string_falsy: "truthy v = None \<Longrightarrow> or_string v d = d"
  by (simp add: or_string_def)

subsection \<open>Runs on the sample host\<close>

lemma distance_ab_neq: "distance_ab \<noteq> 0" "distance_ab * 5 \<noteq> 127"
proof -
  have e: "distance_ab = sqrt 20000 * 25.4 / 96" by (simp add: distance_ab_def)
  have "37 < distance_ab" unfolding e using sqrt_20000_tight by simp
  then show "distance_ab \<noteq> 0" "distance_ab * 5 \<noteq> 127" by linarith+
qed

lemma sample_toString_ab: "sample_Number_toString (Num distance_ab) = ''37.41773383778814''"
  by (simp add: sample_Number_toString_def distance_ab_neq)

lemma sample_parse_text_a: "sample_JSON_parse text_a = Some log_a"
  by (simp add: sample_JSON_parse_def text_a_def)

lemma sample_stringify_log_ab:
  "sample_JSON_stringify (JArray [touchData (Num 0) (Num 0) (Num 1000), touchData (Num 100) (Num 100) (Num 2000)]) = text_ab"
  by (simp add: sample_JSON_stringify_def log_a_def log_ab_def)

lemma touch_b:
  "handleTouch sample_host event_b (Num 2000) tracker_a storage_a =
     \<lparr>thrown = None, self = tracker_ab, store = storage_ab,
      effects = [SetItem ''totalDistance-01-touch-log'' text_ab,
                 SetItem ''totalDistance-01'' ''37.41773383778814'']\<rparr>"
proof -
  have d: "convertToMM tracker_a (calculateDistance (Num 0) (Num 0) (Num 100) (Num 100)) = Num distance_ab"
    by (rule convertToMM_ab) (simp add: tracker_a_def fresh_tracker_def)
  have s: "saveTouchLog sample_host (touchData (Num 100) (Num 100) (Num 2000)) tracker_a storage_a =
      (None, storage_a(''totalDistance-01-touch-log'' \<mapsto> text_ab),
       [SetItem ''totalDistance-01-touch-log'' text_ab])"
    by (simp add: saveTouchLog_def tracker_a_def fresh_tracker_def storage_a_def sample_host_def
        sample_parse_text_a log_a_def sample_stringify_log_ab) (simp add: text_a_def)
  show ?thesis
    unfolding handleTouch_def
    by (simp add: s Let_def event_b_def)
       (simp add: tracker_a_def fresh_tracker_def convertToMM_ab tracker_ab_def saveTotalDistance_def
          sample_host_def sample_toString_ab notifyObservers_def storage_ab_def storage_a_def Let_def)
qed

lemma run_ab:
  "run_calls sample_host [HandleTouch event_a (Num 1000), HandleTouch event_b (Num 2000)]
     fresh_tracker Map.empty = (tracker_ab, storage_ab)"
  by (simp add: touch_a touch_b)

lemma run_ab_observed:
  "run_calls sample_host
     [HandleTouch event_a (Num 1000), HandleTouch event_b (Num 2000), AddObserver observer_full]
     fresh_tracker Map.empty = (addObserver observer_full tracker_ab, storage_ab)"
  by (simp add: touch_a touch_b)

lemma fresh_nothing_saved:
  "no_saved_total fresh_tracker Map.empty" "no_saved_log fresh_tracker Map.empty"
  by (simp_all add: no_saved_total_def no_saved_log_def fresh_tracker_def)

lemma saveTouchLog_first:
  assumes "touchLogKey (storageConfig t) = Some l" "l \<noteq> []" "truthy (st l) = None"
  shows "saveTouchLog h td t st =
           (None, st(l \<mapsto> JSON_stringify h (JArray [td])), [SetItem l (JSON_stringify h (JArray [td]))])"
  using assms by (simp add: saveTouchLog_def)

lemma saveTouchLog_array:
  assumes "touchLogKey (storageConfig t) = Some l" "l \<noteq> []"
    and "st l = Some s" and "s = [] \<or> (\<exists>es. JSON_parse h s = Some (JArray es))"
  shows "fst (saveTouchLog h td t st) = None"
  using assms by (auto simp: saveTouchLog_def)

lemma handleTouch_store_first:
  assumes "touchLogKey (storageConfig t) = Some l" "l \<noteq> []" "truthy (st l) = None"
    and "lastTouchPosition t = None"
  shows "store (handleTouch h ev tm t st) =
           st(l \<mapsto> JSON_stringify h (JArray [touchData (clientX ev) (clientY ev) tm]))"
  using assms by (simp add: handleTouch_def saveTouchLog_first Let_def split: prod.splits)

lemma sample_parseFloat_abc: "sample_parseFloat ''abc'' = NaN"
  by code_simp

lemma generate_bad: "generateDefaultStorageKey bad_storage = Some ''totalDistance-01''"
  unfolding generateDefaultStorageKey_def
  by (subst probe.simps) (simp add: default_key_Suc_0 bad_storage_def)

lemma constructor_bad:
  "constructor sample_host (keyed_config ''saved'') bad_storage = Some bad_tracker"
  unfolding constructor_def generate_bad
  by (simp add: keyed_config_def bad_tracker_def or_number_def
      or_string_def config_storageKey_def config_touchLogKey_def loadTotalDistance_def
      bad_storage_def sample_host_def sample_parseFloat_abc)


lemma sample_round_trip_a:
  "JSON_parse sample_host (JSON_stringify sample_host (JArray [touchData (Num 0) (Num 0) (Num 1000)]))
     = Some (JArray [touchData (Num 0) (Num 0) (Num 1000)])"
  by (simp add: sample_host_def sample_JSON_stringify_def log_a_def sample_parse_text_a)





lemma default_key_Suc_Suc_0: "default_key (Suc (Suc 0)) = ''totalDistance-02''"
  using default_key_2 by (simp add: numeral_2_eq_2)

lemma probe_step:
  "probe st i = (case truthy (st (default_key i)) of
                   Some _ \<Rightarrow> probe st (Suc i) | None \<Rightarrow> Some (default_key i))"
  by (subst probe.simps) (simp split: option.splits)

lemma generate_one_total: "generateDefaultStorageKey one_total_storage = Some ''totalDistance-02''"
proof -
  have "probe one_total_storage (Suc (Suc 0)) = Some ''totalDistance-02''"
    by (subst probe_step) (simp add: default_key_Suc_Suc_0 one_total_storage_def)
  then have "probe one_total_storage (Suc 0) = Some ''totalDistance-02''"
    by (subst probe_step) (simp add: default_key_Suc_0 one_total_storage_def)
  then show ?thesis by (simp add: generateDefaultStorageKey_def)
qed

lemma generate_two_entry: "generateDefaultStorageKey two_entry_storage = Some ''totalDistance-02''"
proof -
  have "probe two_entry_storage (Suc (Suc 0)) = Some ''totalDistance-02''"
    by (subst probe_step) (simp add: default_key_Suc_Suc_0 two_entry_storage_def)
  then have "probe two_entry_storage (Suc 0) = Some ''totalDistance-02''"
    by (subst probe_step) (simp add: default_key_Suc_0 two_entry_storage_def)
  then show ?thesis by (simp add: generateDefaultStorageKey_def)
qed

lemma generate_empty_entry: "generateDefaultStorageKey empty_entry_storage = Some ''totalDistance-01''"
  unfolding generateDefaultStorageKey_def
  by (subst probe.simps) (simp add: default_key_Suc_0 empty_entry_storage_def)

lemma constructor_one_total:
  "constructor sample_host test_config one_total_storage = Some second_tracker"
  unfolding constructor_def generate_one_total
  by (simp add: test_config_def second_tracker_def fresh_tracker_def or_number_def
      or_string_def config_storageKey_def config_touchLogKey_def loadTotalDistance_def
      one_total_storage_def)

lemma constructor_empty_entry:
  "constructor sample_host test_config empty_entry_storage = Some fresh_tracker"
  unfolding constructor_def generate_empty_entry
  by (simp add: test_config_def fresh_tracker_def or_number_def
      or_string_def config_storageKey_def config_touchLogKey_def loadTotalDistance_def
      empty_entry_storage_def)

section \<open>The properties\<close>

subsection \<open>Claim C1\<close>

text \<open>
  C1. From a fresh tracker, that is one constructed without a storage key or one whose
  constructor found nothing persisted under its total key, every sequence of calls of
  \<^verbatim>\<open>handleTouch\<close> and \<^verbatim>\<open>reset\<close> (and of the other public methods), whether the calls
  return or throw, leaves a state in which \<^verbatim>\<open>lines.length == max(points.length - 1, 0)\<close>
  and \<^verbatim>\<open>totalDistance\<close> is the sum of the distances of the recorded lines.
\<close>

theorem C1_invariant:
  assumes "constructor h cfg st0 = Some t0"
    and "truthy (config_storageKey cfg) = None \<or> no_saved_total t0 st0"
    and "run_calls h cs t0 st0 = (t, st)"
  shows "int (length (lines t)) = max (int (length (points t)) - 1) 0 \<and>
         totalDistance t = sum_distances (lines t)"
proof -
  from assms(1,2) have "no_saved_total t0 st0"
    using default_key_no_saved_total by blast
  with assms(1) have "tracker_inv t0" by (rule constructor_inv)
  from run_calls_inv[OF this assms(3)] show ?thesis
    by (auto simp: tracker_inv_def)
qed

text \<open>
  The invariant on the tracker of the repository's tests after touches at \<open>(0, 0)\<close> and
  \<open>(100, 100)\<close>: two points, one line.
\<close>

theorem C1_invariant_witness:
  "constructor sample_host test_config Map.empty = Some fresh_tracker \<and>
   truthy (config_storageKey test_config) = None \<and>
   no_saved_total fresh_tracker Map.empty \<and>
   run_calls sample_host [HandleTouch event_a (Num 1000), HandleTouch event_b (Num 2000)]
     fresh_tracker Map.empty = (tracker_ab, storage_ab) \<and>
   int (length (lines tracker_ab)) = max (int (length (points tracker_ab)) - 1) 0 \<and>
   totalDistance tracker_ab = sum_distances (lines tracker_ab) \<and>
   length (lines tracker_ab) = 1"
proof -
  have c: "truthy (config_storageKey test_config) = None"
    by (simp add: config_storageKey_def test_config_def)
  then have "truthy (config_storageKey test_config) = None \<or> no_saved_total fresh_tracker Map.empty"
    by (rule disjI1)
  from C1_invariant[OF constructor_empty this run_ab]
  show ?thesis
    using constructor_empty c fresh_nothing_saved(1) run_ab by (simp add: tracker_ab_def)
qed

subsection \<open>Claim C2\<close>

text \<open>
  C2, as the code has it. When the total entry is absent or the empty string the
  constructor leaves \<^verbatim>\<open>totalDistance\<close> at 0; when it is any other string the total becomes
  whatever \<^verbatim>\<open>parseFloat\<close> returns for it (NaN for a string that is not a number), and
  no error is raised. \<^verbatim>\<open>getTouchLog\<close> returns the empty array when the log entry is absent
  or the empty string; for any other string it returns what \<^verbatim>\<open>JSON.parse\<close> returns and
  throws the SyntaxError of \<^verbatim>\<open>JSON.parse\<close> when the string is not JSON.
\<close>

theorem C2_storage_reads:
  assumes "constructor h cfg st = Some t"
  shows "\<exists>k l. storageKey (storageConfig t) = Some k \<and> touchLogKey (storageConfig t) = Some l \<and>
           totalDistance t = (case truthy (st k) of None \<Rightarrow> Num 0 | Some s \<Rightarrow> parseFloat h s) \<and>
           (\<forall>st'. getTouchLog h t st' =
              (case truthy (st' l) of
                 None \<Rightarrow> Inr (JArray [])
               | Some s \<Rightarrow> (case JSON_parse h s of None \<Rightarrow> Inl SyntaxError | Some v \<Rightarrow> Inr v)))"
proof -
  from constructor_keys[OF assms] obtain k l where
    k: "storageKey (storageConfig t) = Some k" "k \<noteq> []" and
    l: "touchLogKey (storageConfig t) = Some l" "l \<noteq> []" by blast
  have "totalDistance t = (case truthy (st k) of None \<Rightarrow> Num 0 | Some s \<Rightarrow> parseFloat h s)"
    using constructor_total[OF assms k(1)] by (simp split: option.splits)
  moreover have "getTouchLog h t st' =
              (case truthy (st' l) of
                 None \<Rightarrow> Inr (JArray [])
               | Some s \<Rightarrow> (case JSON_parse h s of None \<Rightarrow> Inl SyntaxError | Some v \<Rightarrow> Inr v))" for st'
    using l by (simp add: getTouchLog_def split: option.splits)
  ultimately show ?thesis using k(1) l(1) by blast
qed

text \<open>The reads on an empty storage: the total is 0 and the log is empty.\<close>

theorem C2_storage_reads_witness:
  "constructor sample_host test_config Map.empty = Some fresh_tracker \<and>
   (\<exists>k l. storageKey (storageConfig fresh_tracker) = Some k \<and>
      touchLogKey (storageConfig fresh_tracker) = Some l \<and>
      totalDistance fresh_tracker =
        (case truthy (Map.empty k) of None \<Rightarrow> Num 0 | Some s \<Rightarrow> parseFloat sample_host s) \<and>
      (\<forall>st'. getTouchLog sample_host fresh_tracker st' =
         (case truthy (st' l) of
            None \<Rightarrow> Inr (JArray [])
          | Some s \<Rightarrow> (case JSON_parse sample_host s of None \<Rightarrow> Inl SyntaxError | Some v \<Rightarrow> Inr v)))) \<and>
   totalDistance fresh_tracker = Num 0 \<and>
   getTouchLog sample_host fresh_tracker Map.empty = Inr (JArray [])"
proof -
  have "totalDistance fresh_tracker = Num 0" by (simp add: fresh_tracker_def)
  moreover have "getTouchLog sample_host fresh_tracker Map.empty = Inr (JArray [])"
    by (simp add: getTouchLog_def fresh_tracker_def)
  ultimately show ?thesis
    using C2_storage_reads[OF constructor_empty] constructor_empty by simp
qed

text \<open>
  A storage with the total \<^verbatim>\<open>"abc"\<close> and the touch log \<^verbatim>\<open>"{oops"\<close>: the constructed
  tracker has the total NaN, not 0, and \<^verbatim>\<open>getTouchLog\<close> throws a SyntaxError.
\<close>

theorem C2_storage_reads_counterexample:
  "constructor sample_host (keyed_config ''saved'') bad_storage = Some bad_tracker \<and>
   bad_storage ''saved'' = Some ''abc'' \<and>
   totalDistance bad_tracker = NaN \<and>
   bad_storage ''totalDistance-01-touch-log'' = Some ''{oops'' \<and>
   getTouchLog sample_host bad_tracker bad_storage = Inl SyntaxError"
  by (simp add: constructor_bad)
     (simp add: bad_tracker_def bad_storage_def getTouchLog_def sample_host_def
        sample_JSON_parse_def text_a_def text_ab_def)

subsection \<open>Claim C3\<close>

text \<open>
  C3. In every state that the constructor and a sequence of method calls can reach, both
  storage keys are set, and \<^verbatim>\<open>reset()\<close> sets the last position to absent, the total to 0
  and the points and lines to empty sequences; it first writes the string of 0 under the
  total key, then removes the log entry, then notifies the observers (the effects are in
  this order, and an exception of \<^verbatim>\<open>reset\<close> is an exception of the notification: none in
  production mode, and in visualization mode, when no callback throws, every callback
  of every registration once, in order); the storage it leaves is the one it found with
  these two changes, and a following \<^verbatim>\<open>getTouchLog()\<close> returns the empty array.
\<close>

theorem C3_reset:
  assumes "constructor h cfg st0 = Some t0"
    and "run_calls h cs t0 st0 = (t, st)"
  shows "\<exists>k l. storageKey (storageConfig t) = Some k \<and> touchLogKey (storageConfig t) = Some l \<and>
           lastTouchPosition (self (reset h t st)) = None \<and>
           totalDistance (self (reset h t st)) = Num 0 \<and>
           points (self (reset h t st)) = [] \<and>
           lines (self (reset h t st)) = [] \<and>
           effects (reset h t st) =
             [SetItem k (Number_toString h (Num 0)), RemoveItem l]
             @ snd (notifyObservers (self (reset h t st))) \<and>
           thrown (reset h t st) = fst (notifyObservers (self (reset h t st))) \<and>
           (mode t = Production \<longrightarrow> snd (notifyObservers (self (reset h t st))) = []) \<and>
           (mode t = Visualization \<and> thrown (reset h t st) = None \<longrightarrow>
              snd (notifyObservers (self (reset h t st))) =
                concat (map (expected_calls (self (reset h t st))) (observers t))) \<and>
           store (reset h t st) = (st(k \<mapsto> Number_toString h (Num 0)))(l := None) \<and>
           getTouchLog h (self (reset h t st)) (store (reset h t st)) = Inr (JArray [])"
proof -
  from reachable_keys[OF assms] obtain k l where
    k: "storageKey (storageConfig t) = Some k" "k \<noteq> []" and
    l: "touchLogKey (storageConfig t) = Some l" "l \<noteq> []" by blast
  let ?r = "reset h t st"
  note r = reset_outcome[OF k l, of h st]
  have f: "self ?r = t\<lparr>lastTouchPosition := None, totalDistance := Num 0, points := [], lines := []\<rparr>"
    by (rule reset_self)
  have e: "effects ?r = [SetItem k (Number_toString h (Num 0)), RemoveItem l]
             @ snd (notifyObservers (self ?r))"
    by (subst r) simp
  have th: "thrown ?r = fst (notifyObservers (self ?r))" by (subst r) simp
  have s: "store ?r = (st(k \<mapsto> Number_toString h (Num 0)))(l := None)" by (subst r) simp
  have g: "getTouchLog h (self ?r) (store ?r) = Inr (JArray [])"
    unfolding s f using l by (simp add: getTouchLog_def)
  have m: "mode (self ?r) = mode t" "observers (self ?r) = observers t" by (simp_all add: f)
  have p: "snd (notifyObservers (self ?r)) = []" if "mode t = Production"
    using that m by (simp add: notifyObservers_production)
  have v: "snd (notifyObservers (self ?r)) = concat (map (expected_calls (self ?r)) (observers t))"
    if "mode t = Visualization \<and> thrown ?r = None"
    using that m th notifyObservers_visualization[of "self ?r"] by simp
  show ?thesis using k(1) l(1) f e th s g p v by simp
qed

text \<open>
  \<^verbatim>\<open>reset()\<close> after two touches and the registration of an observer: the state and the
  storage it leaves, and its effects in order.
\<close>

theorem C3_reset_witness:
  "constructor sample_host test_config Map.empty = Some fresh_tracker \<and>
   run_calls sample_host
     [HandleTouch event_a (Num 1000), HandleTouch event_b (Num 2000), AddObserver observer_full]
     fresh_tracker Map.empty = (addObserver observer_full tracker_ab, storage_ab) \<and>
   reset sample_host (addObserver observer_full tracker_ab) storage_ab =
     \<lparr>thrown = None, self = addObserver observer_full fresh_tracker,
      store = [''totalDistance-01'' \<mapsto> ''0''],
      effects = [SetItem ''totalDistance-01'' ''0'', RemoveItem ''totalDistance-01-touch-log'',
                 CallPointsUpdated 1 [], CallLinesUpdated 1 [], CallTotalDistanceUpdated 1 (Num 0)]\<rparr> \<and>
   getTouchLog sample_host (addObserver observer_full fresh_tracker) [''totalDistance-01'' \<mapsto> ''0'']
     = Inr (JArray [])"
proof -
  define t where "t = addObserver observer_full tracker_ab"
  define r where "r = reset sample_host t storage_ab"
  have run: "run_calls sample_host
     [HandleTouch event_a (Num 1000), HandleTouch event_b (Num 2000), AddObserver observer_full]
     fresh_tracker Map.empty = (t, storage_ab)"
    unfolding t_def by (rule run_ab_observed)
  have k: "storageKey (storageConfig t) = Some ''totalDistance-01''"
    and l: "touchLogKey (storageConfig t) = Some ''totalDistance-01-touch-log''"
    and m: "mode t = Visualization" and ob: "observers t = [observer_full]"
    by (simp_all add: t_def addObserver_def tracker_ab_def fresh_tracker_def)
  have s: "self r = addObserver observer_full fresh_tracker"
    by (simp add: r_def reset_self t_def addObserver_def tracker_ab_def fresh_tracker_def)
  have n: "notifyObservers (addObserver observer_full fresh_tracker) =
     (None, [CallPointsUpdated 1 [], CallLinesUpdated 1 [], CallTotalDistanceUpdated 1 (Num 0)])"
    by (simp add: notifyObservers_def notifyObserver_def and_then_def invoke_def addObserver_def
        fresh_tracker_def observer_full_def)
  have z: "Number_toString sample_host (Num 0) = ''0''"
    by (simp add: sample_host_def sample_Number_toString_def)
  have st: "(storage_ab(''totalDistance-01'' \<mapsto> ''0''))(''totalDistance-01-touch-log'' := None)
      = [''totalDistance-01'' \<mapsto> ''0'']"
    by (auto simp: storage_ab_def)
  from C3_reset[OF constructor_empty run]
  have "effects r = [SetItem ''totalDistance-01'' ''0'', RemoveItem ''totalDistance-01-touch-log'']
          @ snd (notifyObservers (self r))"
    and "thrown r = fst (notifyObservers (self r))"
    and "store r = [''totalDistance-01'' \<mapsto> ''0'']"
    and g: "getTouchLog sample_host (self r) (store r) = Inr (JArray [])"
    unfolding r_def[symmetric] using k l z st by auto
  with s n have "r = \<lparr>thrown = None, self = addObserver observer_full fresh_tracker,
      store = [''totalDistance-01'' \<mapsto> ''0''],
      effects = [SetItem ''totalDistance-01'' ''0'', RemoveItem ''totalDistance-01-touch-log'',
                 CallPointsUpdated 1 [], CallLinesUpdated 1 [], CallTotalDistanceUpdated 1 (Num 0)]\<rparr>"
    by (cases r) simp
  moreover from this g have "getTouchLog sample_host (addObserver observer_full fresh_tracker)
      [''totalDistance-01'' \<mapsto> ''0''] = Inr (JArray [])" by simp
  ultimately show ?thesis using constructor_empty run unfolding r_def t_def by blast
qed

subsection \<open>Claim C4\<close>

text \<open>
  C4, with the figure corrected. On a fresh tracker with 96 dpi (nothing persisted under
  its two keys), on a host whose \<^verbatim>\<open>JSON.parse\<close> reads the log written by the first touch
  back as an array, a touch at \<open>(0, 0)\<close> followed by a touch at \<open>(100, 100)\<close> returns
  normally, \<^verbatim>\<open>getLines()\<close> has length 1 and \<^verbatim>\<open>getTotalDistance()\<close> is
  \<open>sqrt(100\<^sup>2 + 100\<^sup>2) * 25.4 / 96\<close>, which is 37.42 to two decimals.
\<close>

theorem C4_two_touches:
  assumes "constructor h cfg st = Some t0"
    and "dpi t0 = Num 96"
    and "no_saved_total t0 st"
    and "no_saved_log t0 st"
    and "\<exists>es. JSON_parse h (JSON_stringify h (JArray [touchData (Num 0) (Num 0) tm1])) = Some (JArray es)"
    and "r1 = handleTouch h event_a tm1 t0 st"
    and "r2 = handleTouch h event_b tm2 (self r1) (store r1)"
  shows "thrown r2 = None \<and>
         length (getLines (self r2)) = 1 \<and>
         getTotalDistance (self r2) = Num (sqrt (100\<^sup>2 + 100\<^sup>2) * 25.4 / 96) \<and>
         \<bar>sqrt (100\<^sup>2 + 100\<^sup>2) * 25.4 / 96 - 37.42\<bar> < (0.005::real)"
proof -
  from constructor_keys[OF assms(1)] obtain k l where
    k: "storageKey (storageConfig t0) = Some k" "k \<noteq> []" and
    l: "touchLogKey (storageConfig t0) = Some l" "l \<noteq> []" by blast
  have i: "points t0 = []" "lines t0 = []" "lastTouchPosition t0 = None" "observers t0 = []"
    using constructor_initial[OF assms(1)] by simp_all
  have z: "totalDistance t0 = Num 0"
    using constructor_inv[OF assms(1,3)] i by (simp add: tracker_inv_def)
  from assms(4) l have n: "truthy (st l) = None" by (simp add: no_saved_log_def)
  let ?p = "\<lparr>px = Num 0, py = Num 0\<rparr>"
  let ?s = "JSON_stringify h (JArray [touchData (Num 0) (Num 0) tm1])"
  have s1: "fst (saveTouchLog h (touchData (clientX event_a) (clientY event_a) tm1) t0 st) = None"
    using assms(4) by (rule saveTouchLog_no_saved_log)
  have t1: "self r1 = t0\<lparr>points := [?p], lastTouchPosition := Some ?p\<rparr>"
    unfolding assms(6) using s1 i by (simp add: handleTouch_self event_a_def)
  have st1: "store r1 = st(l \<mapsto> ?s)"
    unfolding assms(6) using handleTouch_store_first[of t0 l st h event_a tm1] l n i(3)
    by (simp add: event_a_def)
  have s2: "fst (saveTouchLog h (touchData (clientX event_b) (clientY event_b) tm2) (self r1) (store r1)) = None"
  proof (rule saveTouchLog_array)
    show "touchLogKey (storageConfig (self r1)) = Some l" using l(1) by (simp add: t1)
    show "l \<noteq> []" by (rule l(2))
    show "store r1 l = Some ?s" by (simp add: st1)
    show "?s = [] \<or> (\<exists>es. JSON_parse h ?s = Some (JArray es))" using assms(5) by simp
  qed
  have d: "convertToMM (self r1) (calculateDistance (Num 0) (Num 0) (Num 100) (Num 100)) = Num distance_ab"
    by (rule convertToMM_ab) (simp add: t1 assms(2))
  have t2: "self r2 = (self r1)\<lparr>totalDistance := Num distance_ab,
              lines := [\<lparr>x1 = Num 0, y1 = Num 0, x2 = Num 100, y2 = Num 100, distance = Num distance_ab\<rparr>],
              points := [?p, \<lparr>px = Num 100, py = Num 100\<rparr>],
              lastTouchPosition := Some \<lparr>px = Num 100, py = Num 100\<rparr>\<rparr>"
    unfolding assms(7) handleTouch_self using s2 d[unfolded t1]
    by (simp add: event_b_def t1 i z)
  have "observers (self r2) = []" unfolding t2 t1 using i(4) by simp
  then have "notifyObservers (self r2) = (None, [])" by (rule notifyObservers_no_observers)
  with s2 have "thrown r2 = None" unfolding assms(7) by (simp add: handleTouch_thrown)
  moreover have "length (getLines (self r2)) = 1" by (simp add: getLines_def t2)
  moreover have "getTotalDistance (self r2) = Num (sqrt (100\<^sup>2 + 100\<^sup>2) * 25.4 / 96)"
    by (simp add: getTotalDistance_def t2 distance_ab_def)
  moreover have "\<bar>sqrt (100\<^sup>2 + 100\<^sup>2) * 25.4 / 96 - 37.42\<bar> < (0.005::real)"
    using distance_ab_approx(1) by (simp add: distance_ab_def)
  ultimately show ?thesis by blast
qed

text \<open>The two touches of the repository's test, on the sample host and an empty storage.\<close>

theorem C4_two_touches_witness:
  "constructor sample_host test_config Map.empty = Some fresh_tracker \<and>
   dpi fresh_tracker = Num 96 \<and>
   no_saved_total fresh_tracker Map.empty \<and>
   no_saved_log fresh_tracker Map.empty \<and>
   JSON_parse sample_host (JSON_stringify sample_host (JArray [touchData (Num 0) (Num 0) (Num 1000)]))
     = Some (JArray [touchData (Num 0) (Num 0) (Num 1000)]) \<and>
   thrown (handleTouch sample_host event_b (Num 2000) tracker_a storage_a) = None \<and>
   length (getLines tracker_ab) = 1 \<and>
   getTotalDistance tracker_ab = Num (sqrt (100\<^sup>2 + 100\<^sup>2) * 25.4 / 96) \<and>
   \<bar>sqrt (100\<^sup>2 + 100\<^sup>2) * 25.4 / 96 - 37.42\<bar> < (0.005::real)"
proof -
  have d: "dpi fresh_tracker = Num 96" by (simp add: fresh_tracker_def)
  have e: "\<exists>es. JSON_parse sample_host
      (JSON_stringify sample_host (JArray [touchData (Num 0) (Num 0) (Num 1000)])) = Some (JArray es)"
    using sample_round_trip_a by blast
  from C4_two_touches[OF constructor_empty d fresh_nothing_saved e refl refl, of "Num 2000"]
  show ?thesis
    using constructor_empty d fresh_nothing_saved sample_round_trip_a
    by (simp add: touch_a touch_b)
qed

text \<open>
  The same two touches, step by step: the total is \<open>sqrt(100\<^sup>2 + 100\<^sup>2) * 25.4 / 96\<close>, and
  this number is more than 0.05 away from 37.48.
\<close>

theorem C4_two_touches_counterexample:
  "constructor sample_host test_config Map.empty = Some fresh_tracker \<and>
   handleTouch sample_host event_a (Num 1000) fresh_tracker Map.empty =
     \<lparr>thrown = None, self = tracker_a, store = storage_a,
      effects = [SetItem ''totalDistance-01-touch-log'' text_a]\<rparr> \<and>
   handleTouch sample_host event_b (Num 2000) tracker_a storage_a =
     \<lparr>thrown = None, self = tracker_ab, store = storage_ab,
      effects = [SetItem ''totalDistance-01-touch-log'' text_ab,
                 SetItem ''totalDistance-01'' ''37.41773383778814'']\<rparr> \<and>
   getTotalDistance tracker_ab = Num (sqrt (100\<^sup>2 + 100\<^sup>2) * 25.4 / 96) \<and>
   0.05 < \<bar>sqrt (100\<^sup>2 + 100\<^sup>2) * 25.4 / 96 - (37.48::real)\<bar>"
proof -
  have "getTotalDistance tracker_ab = Num (sqrt (100\<^sup>2 + 100\<^sup>2) * 25.4 / 96)"
    by (simp add: getTotalDistance_def tracker_ab_def distance_ab_def)
  moreover have "0.05 < \<bar>sqrt (100\<^sup>2 + 100\<^sup>2) * 25.4 / 96 - (37.48::real)\<bar>"
    using distance_ab_approx(2) by (simp add: distance_ab_def)
  ultimately show ?thesis using constructor_empty touch_a touch_b by blast
qed

subsection \<open>Claim C5\<close>

text \<open>
  C5. On a fresh tracker (nothing persisted under its two keys) a single \<^verbatim>\<open>handleTouch\<close>
  returns normally and leaves one point, no line and the total 0: no line is created and
  the total is unchanged.
\<close>

theorem C5_first_touch:
  assumes "constructor h cfg st = Some t"
    and "no_saved_total t st"
    and "no_saved_log t st"
  shows "thrown (handleTouch h ev tm t st) = None \<and>
         length (points (self (handleTouch h ev tm t st))) = 1 \<and>
         length (lines (self (handleTouch h ev tm t st))) = 0 \<and>
         totalDistance (self (handleTouch h ev tm t st)) = Num 0 \<and>
         lines (self (handleTouch h ev tm t st)) = lines t \<and>
         totalDistance (self (handleTouch h ev tm t st)) = totalDistance t"
proof -
  let ?r = "handleTouch h ev tm t st"
  have s: "fst (saveTouchLog h (touchData (clientX ev) (clientY ev) tm) t st) = None"
    using assms(3) by (rule saveTouchLog_no_saved_log)
  have i: "points t = []" "lines t = []" "lastTouchPosition t = None" "observers t = []"
    using constructor_initial[OF assms(1)] by simp_all
  have z: "totalDistance t = Num 0"
    using constructor_inv[OF assms(1,2)] i by (simp add: tracker_inv_def)
  have "observers (self ?r) = []" using i by simp
  then have "notifyObservers (self ?r) = (None, [])" by (rule notifyObservers_no_observers)
  with s have "thrown ?r = None" by (simp add: handleTouch_thrown)
  moreover have "self ?r = t\<lparr>points := [\<lparr>px = clientX ev, py = clientY ev\<rparr>],
                          lastTouchPosition := Some \<lparr>px = clientX ev, py = clientY ev\<rparr>\<rparr>"
    using s i by (simp add: handleTouch_self)
  ultimately show ?thesis using i z by simp
qed

text \<open>The first touch of the repository's test.\<close>

theorem C5_first_touch_witness:
  "constructor sample_host test_config Map.empty = Some fresh_tracker \<and>
   no_saved_total fresh_tracker Map.empty \<and>
   no_saved_log fresh_tracker Map.empty \<and>
   thrown (handleTouch sample_host event_a (Num 1000) fresh_tracker Map.empty) = None \<and>
   length (points (self (handleTouch sample_host event_a (Num 1000) fresh_tracker Map.empty))) = 1 \<and>
   length (lines (self (handleTouch sample_host event_a (Num 1000) fresh_tracker Map.empty))) = 0 \<and>
   totalDistance (self (handleTouch sample_host event_a (Num 1000) fresh_tracker Map.empty)) = Num 0"
  using C5_first_touch[OF constructor_empty fresh_nothing_saved, of event_a "Num 1000"]
    constructor_empty fresh_nothing_saved
  by simp

subsection \<open>Claim C6\<close>




subsection \<open>Claim C7\<close>

text \<open>
  C7, as the code has it. On a finite storage, a tracker constructed without a storage key
  gets the key \<open>default_key i\<close> for the first index \<open>i \<ge> 1\<close> whose entry is absent or the
  empty string: every earlier index holds a non-empty string, and the chosen key holds
  none. In particular, when \<^verbatim>\<open>totalDistance-01\<close> holds a non-empty string and
  \<^verbatim>\<open>totalDistance-02\<close> does not, the key is \<^verbatim>\<open>totalDistance-02\<close>.
\<close>

theorem C7_default_key:
  assumes "finite (dom st)"
    and "truthy (config_storageKey cfg) = None"
  shows "\<exists>t i. constructor h cfg st = Some t \<and> 1 \<le> i \<and>
           storageKey (storageConfig t) = Some (default_key i) \<and>
           truthy (st (default_key i)) = None \<and>
           (\<forall>j. 1 \<le> j \<and> j < i \<longrightarrow> truthy (st (default_key j)) \<noteq> None) \<and>
           (truthy (st ''totalDistance-01'') \<noteq> None \<and> truthy (st ''totalDistance-02'') = None
              \<longrightarrow> storageKey (storageConfig t) = Some ''totalDistance-02'')"
proof -
  from generate_terminates[OF finite_truthy[OF assms(1)]] obtain i where
    i: "1 \<le> i" "generateDefaultStorageKey st = Some (default_key i)"
       "truthy (st (default_key i)) = None"
       "\<forall>j. 1 \<le> j \<and> j < i \<longrightarrow> truthy (st (default_key j)) \<noteq> None" by blast
  from i(2) obtain t where t: "constructor h cfg st = Some t"
    by (cases "constructor h cfg st") (simp_all add: constructor_None)
  from t i(2) have "storageKey (storageConfig t) = Some (or_string (config_storageKey cfg) (default_key i))"
    by (auto elim!: constructor_cases)
  with assms(2) have sk: "storageKey (storageConfig t) = Some (default_key i)"
    by (simp add: or_string_falsy)
  have "i = 2" if a: "truthy (st ''totalDistance-01'') \<noteq> None" "truthy (st ''totalDistance-02'') = None"
  proof -
    from a(1) i(3) have "i \<noteq> 1" by (auto simp: default_key_Suc_0)
    moreover have "\<not> 2 < i"
    proof
      assume "2 < i"
      with i(4) have "truthy (st (default_key 2)) \<noteq> None" by simp
      with a(2) show False by (simp add: default_key_2)
    qed
    ultimately show ?thesis using i(1) by linarith
  qed
  then have "truthy (st ''totalDistance-01'') \<noteq> None \<and> truthy (st ''totalDistance-02'') = None
              \<longrightarrow> storageKey (storageConfig t) = Some ''totalDistance-02''"
    using sk by (auto simp: default_key_2)
  with t i sk show ?thesis by blast
qed

text \<open>With \<^verbatim>\<open>totalDistance-01\<close> taken, the constructed tracker has the key \<^verbatim>\<open>totalDistance-02\<close>.\<close>

theorem C7_default_key_witness:
  "finite (dom one_total_storage) \<and>
   truthy (config_storageKey test_config) = None \<and>
   one_total_storage ''totalDistance-01'' = Some ''25.4'' \<and>
   one_total_storage ''totalDistance-02'' = None \<and>
   constructor sample_host test_config one_total_storage = Some second_tracker \<and>
   storageKey (storageConfig second_tracker) = Some ''totalDistance-02''"
proof -
  have f: "finite (dom one_total_storage)" by (simp add: one_total_storage_def)
  have c: "truthy (config_storageKey test_config) = None"
    by (simp add: config_storageKey_def test_config_def)
  have a: "one_total_storage ''totalDistance-01'' = Some ''25.4''"
    "one_total_storage ''totalDistance-02'' = None"
    by (simp_all add: one_total_storage_def)
  from C7_default_key[OF f c, of sample_host] obtain t where
    "constructor sample_host test_config one_total_storage = Some t"
    "truthy (one_total_storage ''totalDistance-01'') \<noteq> None \<and>
     truthy (one_total_storage ''totalDistance-02'') = None
       \<longrightarrow> storageKey (storageConfig t) = Some ''totalDistance-02''" by blast
  with a have "storageKey (storageConfig second_tracker) = Some ''totalDistance-02''"
    by (simp add: constructor_one_total)
  with f c a constructor_one_total show ?thesis by blast
qed

text \<open>
  A storage in which \<^verbatim>\<open>totalDistance-01\<close> exists and holds the empty string: the
  constructor chooses \<^verbatim>\<open>totalDistance-01\<close>, a key of the storage.
\<close>

theorem C7_default_key_counterexample:
  "constructor sample_host test_config empty_entry_storage = Some fresh_tracker \<and>
   storageKey (storageConfig fresh_tracker) = Some ''totalDistance-01'' \<and>
   empty_entry_storage ''totalDistance-01'' = Some [] \<and>
   ''totalDistance-01'' \<in> dom empty_entry_storage"
  by (simp add: constructor_empty_entry) (simp add: fresh_tracker_def empty_entry_storage_def)

subsection \<open>Claim C9\<close>



subsection \<open>Claim C10\<close>

text \<open>
  C10. On a storage with finitely many non-empty entries the probing loop of
  \<^verbatim>\<open>generateDefaultStorageKey\<close> terminates. It returns the key of the first index \<open>i \<ge> 1\<close>
  whose entry is absent or the empty string: an entry that holds the empty string counts
  as unused, and every earlier index holds a non-empty string.
\<close>

theorem C10_probe_terminates:
  assumes "finite {k. truthy (st k) \<noteq> None}"
  shows "\<exists>i\<ge>1. generateDefaultStorageKey st = Some (default_key i) \<and>
           (st (default_key i) = None \<or> st (default_key i) = Some []) \<and>
           (\<forall>j. 1 \<le> j \<and> j < i \<longrightarrow> (\<exists>v. st (default_key j) = Some v \<and> v \<noteq> []))"
proof -
  from generate_terminates[OF assms] obtain i where
    i: "1 \<le> i" "generateDefaultStorageKey st = Some (default_key i)"
       "truthy (st (default_key i)) = None"
       "\<forall>j. 1 \<le> j \<and> j < i \<longrightarrow> truthy (st (default_key j)) \<noteq> None" by blast
  from i(3) have "st (default_key i) = None \<or> st (default_key i) = Some []"
    by (simp add: truthy_eq_None)
  moreover have "\<exists>v. st (default_key j) = Some v \<and> v \<noteq> []" if "1 \<le> j \<and> j < i" for j
  proof -
    from i(4) that have "truthy (st (default_key j)) \<noteq> None" by blast
    then obtain v where "truthy (st (default_key j)) = Some v" by auto
    then show ?thesis by (auto simp: truthy_eq_Some)
  qed
  ultimately show ?thesis using i(1,2) by blast
qed

text \<open>
  \<^verbatim>\<open>totalDistance-01\<close> holds a total and \<^verbatim>\<open>totalDistance-02\<close> the empty string: the loop
  returns \<^verbatim>\<open>totalDistance-02\<close>.
\<close>

theorem C10_probe_terminates_witness:
  "finite {k. truthy (two_entry_storage k) \<noteq> None} \<and>
   two_entry_storage ''totalDistance-01'' = Some ''25.4'' \<and>
   two_entry_storage ''totalDistance-02'' = Some [] \<and>
   generateDefaultStorageKey two_entry_storage = Some ''totalDistance-02''"
proof -
  have f: "finite {k. truthy (two_entry_storage k) \<noteq> None}"
  proof (rule finite_truthy)
    have "dom two_entry_storage = {''totalDistance-01'', ''totalDistance-02''}"
      unfolding two_entry_storage_def by (simp only: dom_fun_upd dom_empty) auto
    then show "finite (dom two_entry_storage)" by simp
  qed
  from C10_probe_terminates[OF f] obtain i where
    "generateDefaultStorageKey two_entry_storage = Some (default_key i)" by blast
  then have "generateDefaultStorageKey two_entry_storage = Some ''totalDistance-02''"
    by (simp add: generate_two_entry)
  with f show ?thesis by (simp add: two_entry_storage_def)
qed

end
